theory Spec2Isabelle
  imports Complex_Main
begin

section \<open>Render-space transform engine of the solar-system example\<close>

text \<open>
  The development follows \<^verbatim>\<open>src/common/update.ts\<close>.  A JavaScript number is an
  IEEE double; here it is a \<^typ>\<open>real\<close>.  Rounding, infinities and NaN are therefore
  outside the model, except where a function is written out for a non-positive
  argument (\<open>makeUnit\<close>), and every theorem that divides names the hypothesis that
  keeps the divisor away from zero.
\<close>

subsection \<open>Vectors of the rendering library\<close>

text \<open>
  \<^verbatim>\<open>THREE.Vector3\<close> with the operations the module calls.  Each of them mutates
  the receiver and returns it; the model returns the new value.
\<close>

datatype Vector3 = Vector3 real real real

definition zero :: Vector3 where
  "zero = Vector3 0 0 0"

fun sub :: "Vector3 \<Rightarrow> Vector3 \<Rightarrow> Vector3" where
  "sub (Vector3 a b c) (Vector3 u v w) = Vector3 (a - u) (b - v) (c - w)"

fun multiplyScalar :: "Vector3 \<Rightarrow> real \<Rightarrow> Vector3" where
  "multiplyScalar (Vector3 a b c) s = Vector3 (a * s) (b * s) (c * s)"

fun negate :: "Vector3 \<Rightarrow> Vector3" where
  "negate (Vector3 a b c) = Vector3 (- a) (- b) (- c)"

fun vlength :: "Vector3 \<Rightarrow> real" where
  "vlength (Vector3 a b c) = sqrt (a * a + b * b + c * c)"

text \<open>
  \<^verbatim>\<open>normalize()\<close> is \<^verbatim>\<open>this.divideScalar(this.length() || 1)\<close>: a vector of
  length zero is divided by one, so it stays the zero vector and nothing is raised.
\<close>

fun normalize :: "Vector3 \<Rightarrow> Vector3" where
  "normalize (Vector3 a b c) =
     (let l = vlength (Vector3 a b c); d = (if l = 0 then 1 else l)
      in Vector3 (a / d) (b / d) (c / d))"

subsection \<open>Bodies, barycenter and frame selector\<close>

text \<open>
  A \<^verbatim>\<open>Point\<close> of the simulation library, reduced to what the module reads: its
  \<^verbatim>\<open>id\<close> (field \<open>ident\<close>, since \<open>id\<close> is the identity function of HOL), its
  current position and its trajectory.  The trajectory is the list of its samples in
  the order of \<^verbatim>\<open>trajectory.get(k)\<close>.  The barycenter is a \<^verbatim>\<open>Point\<close> as well: the
  module puts it in one array with the bodies.
\<close>

record Point =
  ident :: string
  position :: Vector3
  trajectory :: "Vector3 list"

type_synonym Barycenter = Point

text \<open>
  \<^verbatim>\<open>Frame\<close> is \<^verbatim>\<open>null\<close>, the string \<^verbatim>\<open>"barycenter"\<close> or a number used as an index
  into the body list.
\<close>

datatype Frame = Fixed | Barycentric | BodyRelative int

text \<open>Reading a property of \<^verbatim>\<open>undefined\<close> raises a \<^verbatim>\<open>TypeError\<close>.\<close>

datatype error = TypeError

text \<open>\<^verbatim>\<open>xs[i]\<close>: \<^verbatim>\<open>undefined\<close> (here \<open>None\<close>) outside the array.\<close>

definition index :: "'a list \<Rightarrow> int \<Rightarrow> 'a option" where
  "index xs i = (if 0 \<le> i \<and> nat i < length xs then Some (xs ! nat i) else None)"

text \<open>
  \<^verbatim>\<open>trajectory.get(k)\<close>, the sample of logical index \<open>k\<close>.  The buffer belongs to
  the simulation library; a read past its last sample is taken to be \<^verbatim>\<open>undefined\<close>,
  and the theorems below only read inside it.
\<close>

definition get :: "Vector3 list \<Rightarrow> nat \<Rightarrow> Vector3 option" where
  "get t k = (if k < length t then Some (t ! k) else None)"

subsection \<open>Reference frame resolver\<close>

fun framePosition :: "Frame \<Rightarrow> Point list \<Rightarrow> Barycenter \<Rightarrow> error + Vector3" where
  "framePosition Fixed points barycenter = Inr (Vector3 0 0 0)"
| "framePosition Barycentric points barycenter = Inr (Point.position barycenter)"
| "framePosition (BodyRelative frame) points barycenter =
     (case index points frame of
        None \<Rightarrow> Inl TypeError
      | Some p \<Rightarrow> Inr (Point.position p))"

fun frameTrajectory ::
  "Frame \<Rightarrow> Point list \<Rightarrow> Barycenter \<Rightarrow> error + Vector3 list option" where
  "frameTrajectory Fixed points barycenter = Inr None"
| "frameTrajectory Barycentric points barycenter = Inr (Some (trajectory barycenter))"
| "frameTrajectory (BodyRelative frame) points barycenter =
     (case index points frame of
        None \<Rightarrow> Inl TypeError
      | Some p \<Rightarrow> Inr (Some (trajectory p)))"

fun frameLabel :: "Frame \<Rightarrow> Point list \<Rightarrow> error + string" where
  "frameLabel Fixed points = Inr ''fixed''"
| "frameLabel Barycentric points = Inr ''barycenter''"
| "frameLabel (BodyRelative frame) points =
     (case index points frame of
        None \<Rightarrow> Inl TypeError
      | Some p \<Rightarrow> Inr (ident p))"

subsection \<open>Render objects and settings\<close>

datatype Quaternion = Quaternion real real real real

text \<open>
  \<^verbatim>\<open>THREE.Object3D\<close>, reduced to the two fields the module writes; every other
  field of the object lives in the extension part of the record.
  \<^verbatim>\<open>setRotationFromQuaternion(q)\<close> copies \<open>q\<close> into the field \<open>quaternion\<close>.
\<close>

record Object3D =
  position :: Vector3
  quaternion :: Quaternion

record Settings =
  scale :: real
  speed :: real
  samples :: real
  frame :: Frame

text \<open>
  A function that writes render objects returns them either after its last
  statement or as they are when a \<^verbatim>\<open>TypeError\<close> leaves it.
\<close>

datatype 's outcome = Done 's | Threw error 's

text \<open>
  \<^verbatim>\<open>forEach\<close>: the callback runs on the indices of the array in ascending order,
  each run seeing the writes of the runs before it; an exception ends the loop.
\<close>

fun forEach :: "(nat \<Rightarrow> 's \<Rightarrow> 's outcome) \<Rightarrow> nat list \<Rightarrow> 's \<Rightarrow> 's outcome" where
  "forEach f [] s = Done s"
| "forEach f (i # is) s =
     (case f i s of
        Threw e s' \<Rightarrow> Threw e s'
      | Done s' \<Rightarrow> forEach f is s')"

subsection \<open>Body position projector\<close>

definition updateLightObject ::
  "int \<Rightarrow> Point list \<Rightarrow> Barycenter \<Rightarrow> 'a Object3D_scheme \<Rightarrow> Settings
     \<Rightarrow> 'a Object3D_scheme outcome" where
  "updateLightObject idx points barycenter object settings =
     (case framePosition (frame settings) points barycenter of
        Inl e \<Rightarrow> Threw e object
      | Inr basis \<Rightarrow>
          (case index points idx of
             None \<Rightarrow> Threw TypeError object
           | Some p \<Rightarrow>
               Done (object\<lparr>Object3D.position :=
                 multiplyScalar (sub (Point.position p) basis) (scale settings)\<rparr>)))"

definition updateSpheresObject ::
  "Point list \<Rightarrow> Barycenter \<Rightarrow> 'a Object3D_scheme list \<Rightarrow> Settings
     \<Rightarrow> 'a Object3D_scheme list outcome" where
  "updateSpheresObject points barycenter spheres settings =
     (case framePosition (frame settings) points barycenter of
        Inl e \<Rightarrow> Threw e spheres
      | Inr basis \<Rightarrow>
          forEach
            (\<lambda>idx sphs.
               case index sphs (int idx) of
                 None \<Rightarrow> Threw TypeError sphs
               | Some sphere \<Rightarrow>
                   Done (sphs[idx := sphere\<lparr>Object3D.position :=
                     multiplyScalar
                       (sub (Point.position ((barycenter # points) ! idx)) basis)
                       (scale settings)\<rparr>]))
            [0..<length (barycenter # points)] spheres)"

subsection \<open>Trajectory ribbon updater\<close>

text \<open>
  The callback of the inner \<^verbatim>\<open>line.forEach\<close>, for the marker of index \<open>vIdx\<close>.
  \<open>basis\<close> is the result of \<open>frameTrajectory\<close> (\<open>None\<close> for \<^verbatim>\<open>null\<close>).  The samples
  are read before anything is written, so a \<^verbatim>\<open>TypeError\<close> on a missing sample
  leaves the line as it was before this marker.  The position of the previous marker
  is read from the line itself, after that marker was written.
  \<^verbatim>\<open>Quaternion.setFromUnitVectors\<close> belongs to the rendering library and is a
  parameter.
\<close>

definition updateVertex ::
  "(Vector3 \<Rightarrow> Vector3 \<Rightarrow> Quaternion) \<Rightarrow> Vector3 list option \<Rightarrow> Vector3 list \<Rightarrow> real
     \<Rightarrow> nat \<Rightarrow> 'a Object3D_scheme list \<Rightarrow> 'a Object3D_scheme list outcome" where
  "updateVertex setFromUnitVectors basis traj scl vIdx line =
     (let previousVertex =
            (if vIdx = 0 then zero else Object3D.position (line ! (vIdx - 1)));
          upVector = Vector3 0 1 0
      in case get traj vIdx of
           None \<Rightarrow> Threw TypeError line
         | Some sample \<Rightarrow>
             (case (case basis of None \<Rightarrow> Some zero | Some b \<Rightarrow> get b vIdx) of
                None \<Rightarrow> Threw TypeError line
              | Some pos \<Rightarrow>
                  let vertexPosition = multiplyScalar (sub sample pos) scl;
                      direction = normalize (negate (sub vertexPosition previousVertex))
                  in Done (line[vIdx := (line ! vIdx)
                       \<lparr>Object3D.position := vertexPosition,
                        quaternion := setFromUnitVectors upVector direction\<rparr>])))"

definition updateLinesObject ::
  "(Vector3 \<Rightarrow> Vector3 \<Rightarrow> Quaternion) \<Rightarrow> Point list \<Rightarrow> Barycenter
     \<Rightarrow> 'a Object3D_scheme list list \<Rightarrow> Settings \<Rightarrow> 'a Object3D_scheme list list outcome" where
  "updateLinesObject setFromUnitVectors points barycenter lines settings =
     (case frameTrajectory (frame settings) points barycenter of
        Inl e \<Rightarrow> Threw e lines
      | Inr basis \<Rightarrow>
          forEach
            (\<lambda>idx lns.
               case index lns (int idx) of
                 None \<Rightarrow> Threw TypeError lns
               | Some line \<Rightarrow>
                   (case forEach
                           (updateVertex setFromUnitVectors basis
                              (trajectory ((barycenter # points) ! idx)) (scale settings))
                           [0..<length line] line of
                      Threw e line' \<Rightarrow> Threw e (lns[idx := line'])
                    | Done line' \<Rightarrow> Done (lns[idx := line'])))
            [0..<length (barycenter # points)] lines)"

subsection \<open>Camera-relative overlay scaler\<close>

text \<open>
  \<^verbatim>\<open>THREE.OrthographicCamera\<close>, reduced to the fields read (\<open>top\<close> is the top
  element of HOL, hence the prefix), and \<^verbatim>\<open>THREE.Mesh\<close>, an \<^verbatim>\<open>Object3D\<close> with a
  geometry; the geometry is the list of its vertices and
  \<^verbatim>\<open>geometry.scale(x, y, z)\<close> multiplies the coordinates of every vertex.  Every
  mesh has a geometry of its own.
\<close>

record OrthographicCamera =
  camera_top :: real
  camera_bottom :: real
  zoom :: real

record Mesh = Object3D +
  geometry :: "Vector3 list"

fun geometry_scale :: "Vector3 list \<Rightarrow> real \<Rightarrow> real \<Rightarrow> real \<Rightarrow> Vector3 list" where
  "geometry_scale [] sx sy sz = []"
| "geometry_scale (Vector3 a b c # vs) sx sy sz =
     Vector3 (a * sx) (b * sy) (c * sz) # geometry_scale vs sx sy sz"

definition updateAxesMesh ::
  "OrthographicCamera \<Rightarrow> 'a Mesh_scheme list \<Rightarrow> real \<Rightarrow> 'a Mesh_scheme list \<times> real" where
  "updateAxesMesh camera meshes scaleF =
     (let scl = (camera_top camera - camera_bottom camera) / zoom camera / 800;
          transfer = scl / scaleF
      in (map (\<lambda>mesh. mesh
                \<lparr>Object3D.position := multiplyScalar (Object3D.position mesh) transfer,
                 geometry := geometry_scale (geometry mesh) transfer transfer transfer\<rparr>)
            meshes,
          scl))"

subsection \<open>Simulation step\<close>

text \<open>
  The solver, the update of a point from a state of the solver and the update of the
  barycenter from the points belong to the simulation library and are parameters:
  \<open>advance solver duration\<close> returns the states and the solver after the call,
  \<open>state\<close> reads the field \<^verbatim>\<open>state\<close> of an entry, \<open>update\<close> is \<^verbatim>\<open>point.update\<close>
  and \<open>updateBarycenter\<close> is \<^verbatim>\<open>barycenter.update\<close>.  The result holds the points,
  the barycenter and the solver.
\<close>

record Timer =
  dt :: real

record Solver =
  timer :: Timer

definition updateSimulation ::
  "('s Solver_scheme \<Rightarrow> real \<Rightarrow> 'q list \<times> 's Solver_scheme) \<Rightarrow> ('q \<Rightarrow> 'v)
     \<Rightarrow> ('p \<Rightarrow> 'v \<Rightarrow> 'p) \<Rightarrow> ('b \<Rightarrow> 'p list \<Rightarrow> 'b)
     \<Rightarrow> 'p list \<Rightarrow> 'b \<Rightarrow> 's Solver_scheme \<Rightarrow> Settings
     \<Rightarrow> ('p list \<times> 'b \<times> 's Solver_scheme) outcome" where
  "updateSimulation advance state update updateBarycenter points barycenter solver settings =
     (let solver1 = solver\<lparr>timer := (timer solver)\<lparr>dt := speed settings / samples settings\<rparr>\<rparr>;
          (states, solver2) = advance solver1 (speed settings)
      in case forEach
                (\<lambda>idx pts.
                   case index states (int idx) of
                     None \<Rightarrow> Threw TypeError pts
                   | Some q \<Rightarrow> Done (pts[idx := update (pts ! idx) (state q)]))
                [0..<length points] points of
           Threw e pts \<Rightarrow> Threw e (pts, barycenter, solver2)
         | Done pts \<Rightarrow> Done (pts, updateBarycenter barycenter pts, solver2))"

subsection \<open>The orientation routine of the rendering library\<close>

text \<open>
  \<^verbatim>\<open>Quaternion.normalize\<close> and \<^verbatim>\<open>Quaternion.setFromUnitVectors\<close> as the rendering
  library implements them (three.js, release 124).  The updater takes the routine as
  a parameter; this instance is the one the examples run with.
\<close>

fun qnormalize :: "Quaternion \<Rightarrow> Quaternion" where
  "qnormalize (Quaternion a b c d) =
     (let l = sqrt (a * a + b * b + c * c + d * d)
      in if l = 0 then Quaternion 0 0 0 1
         else Quaternion (a * (1 / l)) (b * (1 / l)) (c * (1 / l)) (d * (1 / l)))"

fun dot :: "Vector3 \<Rightarrow> Vector3 \<Rightarrow> real" where
  "dot (Vector3 a b c) (Vector3 u v w) = a * u + b * v + c * w"

fun setFromUnitVectors :: "Vector3 \<Rightarrow> Vector3 \<Rightarrow> Quaternion" where
  "setFromUnitVectors (Vector3 fx fy fz) (Vector3 tx ty tz) =
     (let r = dot (Vector3 fx fy fz) (Vector3 tx ty tz) + 1
      in if r < 1 / 1000000
         then (if \<bar>fx\<bar> > \<bar>fz\<bar>
               then qnormalize (Quaternion (- fy) fx 0 0)
               else qnormalize (Quaternion 0 (- fz) fy 0))
         else qnormalize
                (Quaternion (fy * tz - fz * ty) (fz * tx - fx * tz) (fx * ty - fy * tx) r))"

text \<open>\<^verbatim>\<open>Vector3.applyQuaternion\<close>: the vector rotated by a unit quaternion.\<close>

fun applyQuaternion :: "Vector3 \<Rightarrow> Quaternion \<Rightarrow> Vector3" where
  "applyQuaternion (Vector3 a b c) (Quaternion qx qy qz qw) =
     (let ix = qw * a + qy * c - qz * b;
          iy = qw * b + qz * a - qx * c;
          iz = qw * c + qx * b - qy * a;
          iw = - qx * a - qy * b - qz * c
      in Vector3 (ix * qw + iw * - qx + iy * - qz - iz * - qy)
                 (iy * qw + iw * - qy + iz * - qx - ix * - qz)
                 (iz * qw + iw * - qz + ix * - qy - iy * - qx))"

subsection \<open>Unit and time formatter\<close>

text \<open>
  The module imports \<^verbatim>\<open>Duration\<close>, \<^verbatim>\<open>UNIT_MAP\<close> and \<^verbatim>\<open>UnitPrefix\<close> from
  \<^verbatim>\<open>constants.ts\<close>.  What \<open>makeUnit\<close> and \<open>makeTime\<close> take from them is a
  parameter: the three members of the enum \<^verbatim>\<open>UnitPrefix\<close> that \<open>makeUnit\<close> names,
  the table \<^verbatim>\<open>UNIT_MAP\<close> (\<open>None\<close> where the table has no entry and the lookup is
  \<^verbatim>\<open>undefined\<close>), and the members of the enum \<^verbatim>\<open>Duration\<close>.
\<close>

record 'u Units =
  UnitPrefix_None :: 'u
  UnitPrefix_Giga :: 'u
  UnitPrefix_Nano :: 'u
  UNIT_MAP :: "int \<Rightarrow> 'u option"

record Duration =
  Year :: real
  Month :: real
  Day :: real
  Hour :: real
  Minutes :: real

text \<open>A number that the formatter returns: a real or \<^verbatim>\<open>NaN\<close>.\<close>

datatype number = Num real | NaN

text \<open>The object \<^verbatim>\<open>{ value, unit }\<close>; the unit is \<open>None\<close> when it is \<^verbatim>\<open>undefined\<close>.\<close>

record 'u Scaled =
  val :: number
  unit :: "'u option"

text \<open>
  The operator \<^verbatim>\<open>%\<close>: the remainder has the sign of the dividend.  \<open>js_rem\<close> is the
  operator on integral values, \<open>fmod\<close> on reals; the divisor is never zero in the
  module.
\<close>

definition js_rem :: "int \<Rightarrow> int \<Rightarrow> int" where
  "js_rem a b = sgn a * (\<bar>a\<bar> mod \<bar>b\<bar>)"

definition fmod :: "real \<Rightarrow> real \<Rightarrow> real" where
  "fmod a b = sgn a * (\<bar>a\<bar> - \<bar>b\<bar> * of_int \<lfloor>\<bar>a\<bar> / \<bar>b\<bar>\<rfloor>)"

text \<open>
  \<open>makeUnit\<close>.  For a negative \<open>si\<close> the logarithm is \<^verbatim>\<open>NaN\<close>: every comparison
  is false, the last line is reached, the value is \<^verbatim>\<open>NaN\<close> and the lookup
  \<^verbatim>\<open>UNIT_MAP[NaN]\<close> is \<^verbatim>\<open>undefined\<close>.  For \<open>si = 0\<close> the logarithm is
  \<^verbatim>\<open>-Infinity\<close>, which passes the test \<^verbatim>\<open>exp <= -24\<close>.  Nothing is raised in
  either case.  The literal \<^verbatim>\<open>1e9\<close> is \<open>10 ^ 9\<close> and \<^verbatim>\<open>1e-9\<close> is \<open>1 / 10 ^ 9\<close>.
\<close>

definition makeUnit :: "'u Units \<Rightarrow> real \<Rightarrow> 'u Scaled" where
  "makeUnit c si =
     (if si < 0 then \<lparr>val = NaN, unit = None\<rparr>
      else if si = 0 then \<lparr>val = Num (si / (1 / 10 ^ 9)), unit = Some (UnitPrefix_Nano c)\<rparr>
      else
        let exp = \<lfloor>log 10 si\<rfloor>
        in if exp < 3 \<and> exp \<ge> 0 then \<lparr>val = Num si, unit = Some (UnitPrefix_None c)\<rparr>
           else if exp \<ge> 24 then
             \<lparr>val = Num (si / 10 ^ 9), unit = Some (UnitPrefix_Giga c)\<rparr>
           else if exp \<le> - 24 then
             \<lparr>val = Num (si / (1 / 10 ^ 9)), unit = Some (UnitPrefix_Nano c)\<rparr>
           else
             let rem = js_rem exp 3;
                 exp3 = exp - rem + (if exp < 0 \<and> rem \<noteq> 0 then - 3 else 0)
             in \<lparr>val = Num (si * 10 powi (- exp3)), unit = UNIT_MAP c exp3\<rparr>)"

text \<open>
  A template literal is kept as the list of its parts: literal text, a number
  printed by \<^verbatim>\<open>toFixed(2)\<close>, the integer that \<^verbatim>\<open>Math.floor\<close> returned, and the
  unit prefix.
\<close>

datatype 'u part = Text string | Fixed2 number | Whole int | Prefix "'u option"

definition makeTime :: "Duration \<Rightarrow> 'u Units \<Rightarrow> real \<Rightarrow> 'u part list" where
  "makeTime d c secs =
     (let years = secs / Year d;
          months = secs / Month d;
          days = secs / Day d;
          hours = secs / Hour d;
          minutes = secs / Minutes d
      in if years \<ge> 1 then [Fixed2 (Num years), Text '' years'']
         else if months \<ge> 1 then
           [Fixed2 (Num months), Text '' m '', Whole \<lfloor>fmod months 30\<rfloor>, Text '' d'']
         else if days \<ge> 1 then
           [Whole \<lfloor>days\<rfloor>, Text '' d '', Whole \<lfloor>fmod hours 24\<rfloor>, Text '' h'']
         else if hours \<ge> 1 then
           [Whole \<lfloor>hours\<rfloor>, Text '' h '', Whole \<lfloor>fmod minutes 60\<rfloor>, Text '' m'']
         else if minutes \<ge> 1 then
           [Whole \<lfloor>minutes\<rfloor>, Text '' m '', Whole \<lfloor>fmod secs 60\<rfloor>, Text '' s'']
         else
           let r = makeUnit c secs
           in [Fixed2 (val r), Text '' '', Prefix (unit r), Text ''s''])"

subsection \<open>A small system used to run the definitions\<close>

definition example_points :: "Point list" where
  "example_points =
     [\<lparr>ident = ''Sun'', position = Vector3 0 0 0,
        trajectory = [Vector3 0 0 0, Vector3 0 0 0]\<rparr>,
      \<lparr>ident = ''Earth'', position = Vector3 5 0 2,
        trajectory = [Vector3 4 0 2, Vector3 5 0 2]\<rparr>]"

definition example_barycenter :: Barycenter where
  "example_barycenter =
     \<lparr>ident = ''barycenter'', position = Vector3 1 0 0,
      trajectory = [Vector3 1 0 0, Vector3 1 0 0]\<rparr>"

definition example_settings :: Settings where
  "example_settings = \<lparr>scale = 2, speed = 60, samples = 4, frame = BodyRelative 1\<rparr>"

definition example_object :: Object3D where
  "example_object = \<lparr>position = Vector3 9 9 9, quaternion = Quaternion 0 0 0 1\<rparr>"

definition example_lines :: "Object3D list list" where
  "example_lines =
     [[example_object, example_object],
      [example_object, example_object],
      [example_object, example_object]]"

text \<open>
  Modelled from the spec: the enum \<^verbatim>\<open>UnitPrefix\<close> and the table \<^verbatim>\<open>UNIT_MAP\<close> of
  \<^verbatim>\<open>constants.ts\<close>.  The spec has the formatter "look up the SI prefix for
  \<open>exp3\<close> in a fixed table spanning every multiple of 3 from the negative collapse
  bound to the positive collapse bound"; the bounds are \<open>-24\<close> and \<open>24\<close>, and the
  prefix of \<open>10 ^ 9\<close> is giga, that of \<open>10 ^ - 9\<close> nano.
\<close>

definition example_units :: "string Units" where
  "example_units =
     \<lparr>UnitPrefix_None = '''', UnitPrefix_Giga = ''G'', UnitPrefix_Nano = ''n'',
      UNIT_MAP = map_of
        [(- 24, ''y''), (- 21, ''z''), (- 18, ''a''), (- 15, ''f''), (- 12, ''p''),
         (- 9, ''n''), (- 6, ''u''), (- 3, ''m''), (0, ''''), (3, ''k''), (6, ''M''),
         (9, ''G''), (12, ''T''), (15, ''P''), (18, ''E''), (21, ''Z''), (24, ''Y'')]\<rparr>"

text \<open>
  Modelled from the spec: the enum \<^verbatim>\<open>Duration\<close> of \<^verbatim>\<open>constants.ts\<close>.  A month is
  30 days and a year, on which the spec is silent, 365 days.
\<close>

definition example_duration :: Duration where
  "example_duration =
     \<lparr>Year = 31536000, Month = 2592000, Day = 86400, Hour = 3600, Minutes = 60\<rparr>"

definition example_camera :: OrthographicCamera where
  "example_camera = \<lparr>camera_top = 400, camera_bottom = - 400, zoom = 2\<rparr>"

definition example_mesh :: Mesh where
  "example_mesh =
     \<lparr>position = Vector3 2 4 6, quaternion = Quaternion 0 0 0 1,
      geometry = [Vector3 1 0 0, Vector3 0 2 0]\<rparr>"

definition example_advance :: "Solver \<Rightarrow> real \<Rightarrow> real list \<times> Solver" where
  "example_advance s duration = ([dt (timer s), duration], s)"

definition example_solver :: Solver where
  "example_solver = \<lparr>timer = \<lparr>dt = 0\<rparr>\<rparr>"

definition single_body :: Point where
  "single_body = \<lparr>ident = ''Sun'', position = Vector3 1 0 0, trajectory = [Vector3 1 0 0]\<rparr>"

definition single_body_settings :: Settings where
  "single_body_settings = \<lparr>scale = 2, speed = 60, samples = 4, frame = BodyRelative 0\<rparr>"

text \<open>
  One entity with one sample, drawn in the fixed frame at scale 1; the direction
  from its marker to the origin is within about a thousandth of a radian of the
  downward axis.
\<close>

definition lone_marker :: Point where
  "lone_marker =
     \<lparr>ident = ''barycenter'', position = Vector3 4000 3999999 0,
      trajectory = [Vector3 4000 3999999 0]\<rparr>"

definition fixed_settings :: Settings where
  "fixed_settings = \<lparr>scale = 1, speed = 60, samples = 4, frame = Fixed\<rparr>"

section \<open>Properties\<close>

subsection \<open>Reference frame resolver\<close>

lemma index_valid: "0 \<le> i \<Longrightarrow> nat i < length xs \<Longrightarrow> index xs i = Some (xs ! nat i)"
  by (simp add: index_def)

text \<open>
  C5.  For every body list and barycenter: the fixed frame has the zero vector as
  basis position and no basis trajectory; the barycentric frame has the position and
  the trajectory of the barycenter; the frame of body \<open>i\<close>, for a valid index \<open>i\<close>, has
  the position and the trajectory of body \<open>i\<close>; the labels are \<open>fixed\<close>,
  \<open>barycenter\<close> and the id of body \<open>i\<close>.
\<close>

theorem frame_resolver:
  "framePosition Fixed points barycenter = Inr (Vector3 0 0 0)
   \<and> frameTrajectory Fixed points barycenter = Inr None
   \<and> framePosition Barycentric points barycenter = Inr (Point.position barycenter)
   \<and> frameTrajectory Barycentric points barycenter = Inr (Some (trajectory barycenter))
   \<and> frameLabel Fixed points = Inr ''fixed''
   \<and> frameLabel Barycentric points = Inr ''barycenter''
   \<and> (0 \<le> i \<and> nat i < length points \<longrightarrow>
        framePosition (BodyRelative i) points barycenter
          = Inr (Point.position (points ! nat i))
        \<and> frameTrajectory (BodyRelative i) points barycenter
          = Inr (Some (trajectory (points ! nat i)))
        \<and> frameLabel (BodyRelative i) points = Inr (ident (points ! nat i)))"
  by (simp add: index_valid)

theorem frame_resolver_witness:
  "(0::int) \<le> 1 \<and> nat 1 < length example_points
   \<and> framePosition (BodyRelative 1) example_points example_barycenter
       = Inr (Vector3 5 0 2)
   \<and> frameTrajectory (BodyRelative 1) example_points example_barycenter
       = Inr (Some [Vector3 4 0 2, Vector3 5 0 2])
   \<and> frameLabel (BodyRelative 1) example_points = Inr ''Earth''"
  using frame_resolver [of example_points example_barycenter 1]
  by (simp add: example_points_def)

subsection \<open>Body position projector\<close>

lemma forEach_append:
  "forEach f (xs @ ys) s =
     (case forEach f xs s of Threw e s' \<Rightarrow> Threw e s' | Done s' \<Rightarrow> forEach f ys s')"
  by (induction xs arbitrary: s) (auto split: outcome.splits)

lemma forEach_upt_Suc:
  "forEach f [0..<Suc n] s =
     (case forEach f [0..<n] s of Threw e s' \<Rightarrow> Threw e s' | Done s' \<Rightarrow> f n s')"
  by (simp add: forEach_append split: outcome.splits)

lemma sub_self: "sub v v = Vector3 0 0 0"
  by (cases v) simp

lemma spheres_loop:
  fixes spheres :: "'a Object3D_scheme list"
  assumes "n \<le> length spheres"
  shows "\<exists>sphs. forEach
            (\<lambda>idx sphs.
               case index sphs (int idx) of
                 None \<Rightarrow> Threw TypeError sphs
               | Some sphere \<Rightarrow>
                   Done (sphs[idx := sphere\<lparr>Object3D.position := g idx\<rparr>]))
            [0..<n] spheres = Done sphs
          \<and> length sphs = length spheres
          \<and> (\<forall>k < length spheres. sphs ! k =
                (if k < n then (spheres ! k)\<lparr>Object3D.position := g k\<rparr> else spheres ! k))"
  using assms
proof (induction n)
  case 0
  then show ?case by simp
next
  case (Suc n)
  then obtain sphs where h: "forEach
            (\<lambda>idx sphs.
               case index sphs (int idx) of
                 None \<Rightarrow> Threw TypeError sphs
               | Some sphere \<Rightarrow>
                   Done (sphs[idx := sphere\<lparr>Object3D.position := g idx\<rparr>]))
            [0..<n] spheres = Done sphs" "length sphs = length spheres"
      "\<forall>k < length spheres. sphs ! k =
                (if k < n then (spheres ! k)\<lparr>Object3D.position := g k\<rparr> else spheres ! k)"
    by auto
  from Suc.prems h(2) have i: "index sphs (int n) = Some (sphs ! n)"
    by (simp add: index_def)
  show ?case
    unfolding forEach_upt_Suc h(1)
    using h(2,3) Suc.prems i
    by (auto simp: nth_list_update)
qed

text \<open>
  C6.  With the basis position of the resolver, the projector writes
  \<open>(body.position - basis) * settings.scale\<close> into the position of the target
  object and changes nothing else: the result is the object it was given with that
  one field replaced.  \<open>updateSpheresObject\<close> does the same for the barycenter and
  every body, object \<open>k\<close> receiving entity \<open>k\<close> of \<open>barycenter # points\<close>.  When the
  frame is body \<open>idx\<close>, the position written for body \<open>idx\<close> is the zero vector.
\<close>

theorem body_position_projector:
  assumes "framePosition (frame settings) points barycenter = Inr basis"
    and "0 \<le> idx" and "nat idx < length points"
  shows "updateLightObject idx points barycenter object settings
           = Done (object\<lparr>Object3D.position :=
               multiplyScalar (sub (Point.position (points ! nat idx)) basis) (scale settings)\<rparr>)
    \<and> (frame settings = BodyRelative idx \<longrightarrow>
          updateLightObject idx points barycenter object settings
            = Done (object\<lparr>Object3D.position := Vector3 0 0 0\<rparr>))
    \<and> (length (barycenter # points) \<le> length spheres \<longrightarrow>
         (\<exists>sphs. updateSpheresObject points barycenter spheres settings = Done sphs
            \<and> length sphs = length spheres
            \<and> (\<forall>k < length spheres. sphs ! k =
                 (if k < length (barycenter # points)
                  then (spheres ! k)\<lparr>Object3D.position :=
                    multiplyScalar (sub (Point.position ((barycenter # points) ! k)) basis)
                      (scale settings)\<rparr>
                  else spheres ! k))
            \<and> (frame settings = BodyRelative idx \<longrightarrow>
                 Object3D.position (sphs ! Suc (nat idx)) = Vector3 0 0 0)))"
proof (intro conjI impI)
  from assms(2,3) have i: "index points idx = Some (points ! nat idx)"
    by (rule index_valid)
  show light: "updateLightObject idx points barycenter object settings
           = Done (object\<lparr>Object3D.position :=
               multiplyScalar (sub (Point.position (points ! nat idx)) basis) (scale settings)\<rparr>)"
    by (simp add: updateLightObject_def assms(1) i)
  have rel: "basis = Point.position (points ! nat idx)" if "frame settings = BodyRelative idx"
    using assms(1) that i by simp
  show "updateLightObject idx points barycenter object settings
            = Done (object\<lparr>Object3D.position := Vector3 0 0 0\<rparr>)"
    if "frame settings = BodyRelative idx"
    using light rel [OF that] by (simp add: sub_self)
  show "\<exists>sphs. updateSpheresObject points barycenter spheres settings = Done sphs
            \<and> length sphs = length spheres
            \<and> (\<forall>k < length spheres. sphs ! k =
                 (if k < length (barycenter # points)
                  then (spheres ! k)\<lparr>Object3D.position :=
                    multiplyScalar (sub (Point.position ((barycenter # points) ! k)) basis)
                      (scale settings)\<rparr>
                  else spheres ! k))
            \<and> (frame settings = BodyRelative idx \<longrightarrow>
                 Object3D.position (sphs ! Suc (nat idx)) = Vector3 0 0 0)"
    if len: "length (barycenter # points) \<le> length spheres"
  proof -
    from spheres_loop [OF len,
        of "\<lambda>k. multiplyScalar (sub (Point.position ((barycenter # points) ! k)) basis)
                      (scale settings)"]
    obtain sphs where s:
      "updateSpheresObject points barycenter spheres settings = Done sphs"
      "length sphs = length spheres"
      "\<forall>k < length spheres. sphs ! k =
                 (if k < length (barycenter # points)
                  then (spheres ! k)\<lparr>Object3D.position :=
                    multiplyScalar (sub (Point.position ((barycenter # points) ! k)) basis)
                      (scale settings)\<rparr>
                  else spheres ! k)"
      unfolding updateSpheresObject_def assms(1) by auto
    have "Object3D.position (sphs ! Suc (nat idx)) = Vector3 0 0 0"
      if "frame settings = BodyRelative idx"
    proof -
      from len assms(3) have "Suc (nat idx) < length spheres" by simp
      with s(3) assms(3) have "sphs ! Suc (nat idx) =
         (spheres ! Suc (nat idx))\<lparr>Object3D.position :=
            multiplyScalar (sub (Point.position (points ! nat idx)) basis) (scale settings)\<rparr>"
        by simp
      then show ?thesis using rel [OF that] by (simp add: sub_self)
    qed
    with s show ?thesis by blast
  qed
qed

theorem body_position_projector_witness:
  "framePosition (frame example_settings) example_points example_barycenter
     = Inr (Vector3 5 0 2)
   \<and> (0::int) \<le> 1 \<and> nat 1 < length example_points
   \<and> frame example_settings = BodyRelative 1
   \<and> updateLightObject 1 example_points example_barycenter example_object example_settings
       = Done \<lparr>position = Vector3 0 0 0, quaternion = Quaternion 0 0 0 1\<rparr>
   \<and> length (example_barycenter # example_points)
       \<le> length [example_object, example_object, example_object]
   \<and> updateSpheresObject example_points example_barycenter
        [example_object, example_object, example_object] example_settings
       = Done [\<lparr>position = Vector3 (- 8) 0 (- 4), quaternion = Quaternion 0 0 0 1\<rparr>,
               \<lparr>position = Vector3 (- 10) 0 (- 4), quaternion = Quaternion 0 0 0 1\<rparr>,
               \<lparr>position = Vector3 0 0 0, quaternion = Quaternion 0 0 0 1\<rparr>]"
proof -
  have f: "framePosition (frame example_settings) example_points example_barycenter
     = Inr (Vector3 5 0 2)"
    by (simp add: example_settings_def example_points_def index_def)
  have l: "nat 1 < length example_points" by (simp add: example_points_def)
  have s: "updateSpheresObject example_points example_barycenter
        [example_object, example_object, example_object] example_settings
       = Done [\<lparr>position = Vector3 (- 8) 0 (- 4), quaternion = Quaternion 0 0 0 1\<rparr>,
               \<lparr>position = Vector3 (- 10) 0 (- 4), quaternion = Quaternion 0 0 0 1\<rparr>,
               \<lparr>position = Vector3 0 0 0, quaternion = Quaternion 0 0 0 1\<rparr>]"
    by (simp add: updateSpheresObject_def f example_points_def example_barycenter_def
        example_object_def example_settings_def index_def upt_rec)
  have r: "frame example_settings = BodyRelative 1" by (simp add: example_settings_def)
  have z: "(0::int) \<le> 1" by simp
  from body_position_projector [OF f z l, of example_object
      "[example_object, example_object, example_object]"] r
  have "updateLightObject 1 example_points example_barycenter example_object example_settings
       = Done (example_object\<lparr>Object3D.position := Vector3 0 0 0\<rparr>)"
    by blast
  moreover have "length (example_barycenter # example_points)
       \<le> length [example_object, example_object, example_object]"
    by (simp add: example_points_def)
  ultimately show ?thesis
    using f l s r z by (intro conjI) (simp_all only: example_object_def Object3D.simps)
qed

subsection \<open>Trajectory ribbon updater\<close>

lemma sub_zero: "sub v zero = v"
  by (cases v) (simp add: zero_def)

lemma vertices_loop:
  fixes line :: "'a Object3D_scheme list"
  assumes "n \<le> length line" and "n \<le> length traj"
    and "\<And>b. basis = Some b \<Longrightarrow> n \<le> length b"
  shows "\<exists>ln. forEach (updateVertex Q basis traj scl) [0..<n] line = Done ln
          \<and> length ln = length line
          \<and> (\<forall>k < length line. n \<le> k \<longrightarrow> ln ! k = line ! k)
          \<and> (\<forall>k < n.
                Object3D.position (ln ! k) =
                  multiplyScalar
                    (sub (traj ! k) (case basis of None \<Rightarrow> zero | Some b \<Rightarrow> b ! k)) scl
              \<and> quaternion (ln ! k) =
                  Q (Vector3 0 1 0)
                    (normalize (negate (sub (Object3D.position (ln ! k))
                       (if k = 0 then zero else Object3D.position (ln ! (k - 1))))))
              \<and> Object3D.more (ln ! k) = Object3D.more (line ! k))"
  using assms
proof (induction n)
  case 0
  then show ?case by simp
next
  case (Suc n)
  then obtain ln where h:
    "forEach (updateVertex Q basis traj scl) [0..<n] line = Done ln"
    "length ln = length line"
    "\<forall>k < length line. n \<le> k \<longrightarrow> ln ! k = line ! k"
    "\<forall>k < n.
                Object3D.position (ln ! k) =
                  multiplyScalar
                    (sub (traj ! k) (case basis of None \<Rightarrow> zero | Some b \<Rightarrow> b ! k)) scl
              \<and> quaternion (ln ! k) =
                  Q (Vector3 0 1 0)
                    (normalize (negate (sub (Object3D.position (ln ! k))
                       (if k = 0 then zero else Object3D.position (ln ! (k - 1))))))
              \<and> Object3D.more (ln ! k) = Object3D.more (line ! k)"
    by (metis Suc_leD)
  define pos where "pos = (case basis of None \<Rightarrow> zero | Some b \<Rightarrow> b ! n)"
  have g1: "get traj n = Some (traj ! n)" using Suc.prems(2) by (simp add: get_def)
  have g2: "(case basis of None \<Rightarrow> Some zero | Some b \<Rightarrow> get b n) = Some pos"
    using Suc.prems(3) by (auto simp: pos_def get_def split: option.splits)
  define v where "v = multiplyScalar (sub (traj ! n) pos) scl"
  define ln' where "ln' = ln[n := (ln ! n)
       \<lparr>Object3D.position := v,
        quaternion := Q (Vector3 0 1 0) (normalize (negate (sub v
           (if n = 0 then zero else Object3D.position (ln ! (n - 1))))))\<rparr>]"
  have step: "updateVertex Q basis traj scl n ln = Done ln'"
    by (simp add: updateVertex_def g1 g2 ln'_def v_def Let_def)
  have "forEach (updateVertex Q basis traj scl) [0..<Suc n] line = Done ln'"
    by (simp only: forEach_upt_Suc h(1) outcome.case step)
  moreover have "length ln' = length line" by (simp add: ln'_def h(2))
  moreover have "\<forall>k < length line. Suc n \<le> k \<longrightarrow> ln' ! k = line ! k"
    using h(3) by (simp add: ln'_def)
  moreover have "\<forall>k < Suc n.
                Object3D.position (ln' ! k) =
                  multiplyScalar
                    (sub (traj ! k) (case basis of None \<Rightarrow> zero | Some b \<Rightarrow> b ! k)) scl
              \<and> quaternion (ln' ! k) =
                  Q (Vector3 0 1 0)
                    (normalize (negate (sub (Object3D.position (ln' ! k))
                       (if k = 0 then zero else Object3D.position (ln' ! (k - 1))))))
              \<and> Object3D.more (ln' ! k) = Object3D.more (line ! k)"
  proof (intro allI impI)
    fix k assume "k < Suc n"
    show "Object3D.position (ln' ! k) =
                  multiplyScalar
                    (sub (traj ! k) (case basis of None \<Rightarrow> zero | Some b \<Rightarrow> b ! k)) scl
              \<and> quaternion (ln' ! k) =
                  Q (Vector3 0 1 0)
                    (normalize (negate (sub (Object3D.position (ln' ! k))
                       (if k = 0 then zero else Object3D.position (ln' ! (k - 1))))))
              \<and> Object3D.more (ln' ! k) = Object3D.more (line ! k)"
    proof (cases "k = n")
      case True
      have nl: "n < length ln" using Suc.prems(1) h(2) by simp
      have "ln' ! n = (ln ! n)
       \<lparr>Object3D.position := v,
        quaternion := Q (Vector3 0 1 0) (normalize (negate (sub v
           (if n = 0 then zero else Object3D.position (ln ! (n - 1))))))\<rparr>"
        using nl by (simp add: ln'_def)
      moreover have "n \<noteq> 0 \<Longrightarrow> ln' ! (n - 1) = ln ! (n - 1)"
        by (simp add: ln'_def)
      moreover have "ln ! n = line ! n" using h(3) Suc.prems(1) by simp
      ultimately show ?thesis using True
        by (auto simp: v_def pos_def)
    next
      case False
      with \<open>k < Suc n\<close> have kn: "k < n" by simp
      then have "ln' ! k = ln ! k" "ln' ! (k - 1) = ln ! (k - 1)"
        by (simp_all add: ln'_def)
      with h(4) kn show ?thesis by simp
    qed
  qed
  ultimately show ?case by blast
qed


lemma lines_loop:
  fixes lines :: "'a Object3D_scheme list list"
  assumes "m \<le> length lines"
    and "\<forall>e < m. inner e (lines ! e) = Done (F e)"
  shows "\<exists>lns. forEach
            (\<lambda>idx lns.
               case index lns (int idx) of
                 None \<Rightarrow> Threw TypeError lns
               | Some line \<Rightarrow>
                   (case inner idx line of
                      Threw e line' \<Rightarrow> Threw e (lns[idx := line'])
                    | Done line' \<Rightarrow> Done (lns[idx := line'])))
            [0..<m] lines = Done lns
          \<and> length lns = length lines
          \<and> (\<forall>e < length lines. lns ! e = (if e < m then F e else lines ! e))"
  using assms
proof (induction m)
  case 0
  then show ?case by simp
next
  case (Suc m)
  then obtain lns where h: "forEach
            (\<lambda>idx lns.
               case index lns (int idx) of
                 None \<Rightarrow> Threw TypeError lns
               | Some line \<Rightarrow>
                   (case inner idx line of
                      Threw e line' \<Rightarrow> Threw e (lns[idx := line'])
                    | Done line' \<Rightarrow> Done (lns[idx := line'])))
            [0..<m] lines = Done lns"
    "length lns = length lines"
    "\<forall>e < length lines. lns ! e = (if e < m then F e else lines ! e)"
    by auto
  from Suc.prems(1) h(2) have i: "index lns (int m) = Some (lns ! m)"
    by (simp add: index_def)
  from Suc.prems(1) h(3) have "lns ! m = lines ! m" by simp
  with Suc.prems(2) have j: "inner m (lns ! m) = Done (F m)" by simp
  have "forEach
            (\<lambda>idx lns.
               case index lns (int idx) of
                 None \<Rightarrow> Threw TypeError lns
               | Some line \<Rightarrow>
                   (case inner idx line of
                      Threw e line' \<Rightarrow> Threw e (lns[idx := line'])
                    | Done line' \<Rightarrow> Done (lns[idx := line'])))
            [0..<Suc m] lines = Done (lns[m := F m])"
    by (simp only: forEach_upt_Suc h(1) outcome.case i j option.case)
  moreover have "length (lns[m := F m]) = length lines" by (simp add: h(2))
  moreover have "\<forall>e < length lines.
      (lns[m := F m]) ! e = (if e < Suc m then F e else lines ! e)"
  proof (intro allI impI)
    fix e assume e: "e < length lines"
    show "(lns[m := F m]) ! e = (if e < Suc m then F e else lines ! e)"
    proof (cases "e = m")
      case True
      with e h(2) show ?thesis by simp
    next
      case False
      with e h(3) show ?thesis by (simp add: less_Suc_eq)
    qed
  qed
  ultimately show ?case by blast
qed

lemma updateLinesObject_markers:
  fixes lines :: "'a Object3D_scheme list list"
  assumes basis: "frameTrajectory (frame settings) points barycenter = Inr basis"
    and lines: "length (barycenter # points) \<le> length lines"
    and samples: "\<forall>e < length (barycenter # points).
           length (lines ! e) \<le> length (trajectory ((barycenter # points) ! e))
           \<and> (\<forall>b. basis = Some b \<longrightarrow> length (lines ! e) \<le> length b)"
  shows "\<exists>lns. updateLinesObject Q points barycenter lines settings = Done lns
          \<and> length lns = length lines
          \<and> (\<forall>e < length lines. length (barycenter # points) \<le> e \<longrightarrow> lns ! e = lines ! e)
          \<and> (\<forall>e < length (barycenter # points).
                length (lns ! e) = length (lines ! e)
              \<and> (\<forall>k < length (lines ! e).
                  Object3D.position (lns ! e ! k) =
                    multiplyScalar
                      (sub (trajectory ((barycenter # points) ! e) ! k)
                           (case basis of None \<Rightarrow> zero | Some b \<Rightarrow> b ! k))
                      (scale settings)
                \<and> quaternion (lns ! e ! k) =
                    Q (Vector3 0 1 0)
                      (normalize (negate (sub (Object3D.position (lns ! e ! k))
                         (if k = 0 then zero else Object3D.position (lns ! e ! (k - 1))))))
                \<and> Object3D.more (lns ! e ! k) = Object3D.more (lines ! e ! k)))"
proof -
  let ?ents = "barycenter # points"
  let ?inner = "\<lambda>e line. forEach
      (updateVertex Q basis (trajectory (?ents ! e)) (scale settings)) [0..<length line] line"
  let ?good = "\<lambda>e ln. ?inner e (lines ! e) = Done ln
          \<and> length ln = length (lines ! e)
          \<and> (\<forall>k < length (lines ! e).
                Object3D.position (ln ! k) =
                  multiplyScalar
                    (sub (trajectory (?ents ! e) ! k)
                       (case basis of None \<Rightarrow> zero | Some b \<Rightarrow> b ! k)) (scale settings)
              \<and> quaternion (ln ! k) =
                  Q (Vector3 0 1 0)
                    (normalize (negate (sub (Object3D.position (ln ! k))
                       (if k = 0 then zero else Object3D.position (ln ! (k - 1))))))
              \<and> Object3D.more (ln ! k) = Object3D.more (lines ! e ! k))"
  have "\<exists>ln. ?good e ln" if "e < length ?ents" for e
  proof -
    from samples that
    have a: "length (lines ! e) \<le> length (trajectory (?ents ! e))"
      and b: "\<And>b. basis = Some b \<Longrightarrow> length (lines ! e) \<le> length b"
      by blast+
    from vertices_loop [where Q = Q and scl = "scale settings", OF order_refl a b]
    show ?thesis by blast
  qed
  then have "\<forall>e. \<exists>ln. e < length ?ents \<longrightarrow> ?good e ln" by blast
  then obtain F where F: "\<forall>e. e < length ?ents \<longrightarrow> ?good e (F e)"
    by (rule choice [THEN exE])
  then have "\<forall>e < length ?ents. ?inner e (lines ! e) = Done (F e)" by blast
  from lines_loop [OF lines, of ?inner F, OF this]
  obtain lns where l: "updateLinesObject Q points barycenter lines settings = Done lns"
    "length lns = length lines"
    "\<forall>e < length lines. lns ! e = (if e < length ?ents then F e else lines ! e)"
    unfolding updateLinesObject_def basis by auto
  have "\<forall>e < length lines. length ?ents \<le> e \<longrightarrow> lns ! e = lines ! e"
    using l(3) by simp
  moreover have "\<forall>e < length ?ents. lns ! e = F e"
    using l(3) lines by simp
  ultimately show ?thesis using l(1,2) F by (intro exI [of _ lns]) simp
qed

lemma frameTrajectory_None:
  "frameTrajectory f points barycenter = Inr basis \<Longrightarrow> (basis = None) = (f = Fixed)"
  by (cases f) (auto split: option.splits)

text \<open>
  C1.  Let the resolver return \<open>basis\<close> for the current frame, let there be a line
  of markers for the barycenter and for every body, each line holding one marker per
  sample of its entity, and let the basis trajectory have a sample for every marker.
  Then the updater completes, and for every entity \<open>e\<close> of \<open>barycenter # points\<close> and
  every sample index \<open>k\<close> the position of marker \<open>(e, k)\<close> is
  \<open>(trajectory e ! k - basis ! k) * settings.scale\<close>, the sample of the basis being
  taken at the same index \<open>k\<close>, when the frame is not fixed, and
  \<open>trajectory e ! k * settings.scale\<close> when it is.
\<close>

theorem ribbon_frame_relative_position:
  fixes lines :: "'a Object3D_scheme list list"
  assumes "frameTrajectory (frame settings) points barycenter = Inr basis"
    and "length (barycenter # points) \<le> length lines"
    and "\<forall>e < length (barycenter # points).
           length (lines ! e) = length (trajectory ((barycenter # points) ! e))
           \<and> (\<forall>b. basis = Some b \<longrightarrow> length (lines ! e) \<le> length b)"
  shows "(basis = None) = (frame settings = Fixed)
    \<and> (\<exists>lns. updateLinesObject Q points barycenter lines settings = Done lns
         \<and> (\<forall>e < length (barycenter # points).
              \<forall>k < length (trajectory ((barycenter # points) ! e)).
                Object3D.position (lns ! e ! k) =
                  (case basis of
                     None \<Rightarrow>
                       multiplyScalar (trajectory ((barycenter # points) ! e) ! k)
                         (scale settings)
                   | Some b \<Rightarrow>
                       multiplyScalar
                         (sub (trajectory ((barycenter # points) ! e) ! k) (b ! k))
                         (scale settings))))"
proof
  show "(basis = None) = (frame settings = Fixed)"
    using assms(1) by (rule frameTrajectory_None)
  from assms(3) have "\<forall>e < length (barycenter # points).
           length (lines ! e) \<le> length (trajectory ((barycenter # points) ! e))
           \<and> (\<forall>b. basis = Some b \<longrightarrow> length (lines ! e) \<le> length b)"
    by (metis order_refl)
  from updateLinesObject_markers [OF assms(1,2) this, of Q]
  obtain lns where l: "updateLinesObject Q points barycenter lines settings = Done lns"
    "\<forall>e < length (barycenter # points). \<forall>k < length (lines ! e).
        Object3D.position (lns ! e ! k) =
          multiplyScalar
            (sub (trajectory ((barycenter # points) ! e) ! k)
                 (case basis of None \<Rightarrow> zero | Some b \<Rightarrow> b ! k))
            (scale settings)"
    by blast
  have "\<forall>e < length (barycenter # points).
          \<forall>k < length (trajectory ((barycenter # points) ! e)).
            Object3D.position (lns ! e ! k) =
              (case basis of
                 None \<Rightarrow>
                   multiplyScalar (trajectory ((barycenter # points) ! e) ! k)
                     (scale settings)
               | Some b \<Rightarrow>
                   multiplyScalar
                     (sub (trajectory ((barycenter # points) ! e) ! k) (b ! k))
                     (scale settings))"
  proof (intro allI impI)
    fix e k
    assume e: "e < length (barycenter # points)"
      and k: "k < length (trajectory ((barycenter # points) ! e))"
    from assms(3) e k have "k < length (lines ! e)" by simp
    with l(2) e show "Object3D.position (lns ! e ! k) =
              (case basis of
                 None \<Rightarrow>
                   multiplyScalar (trajectory ((barycenter # points) ! e) ! k)
                     (scale settings)
               | Some b \<Rightarrow>
                   multiplyScalar
                     (sub (trajectory ((barycenter # points) ! e) ! k) (b ! k))
                     (scale settings))"
      by (cases basis) (simp_all add: sub_zero)
  qed
  with l(1) show "\<exists>lns. updateLinesObject Q points barycenter lines settings = Done lns
         \<and> (\<forall>e < length (barycenter # points).
              \<forall>k < length (trajectory ((barycenter # points) ! e)).
                Object3D.position (lns ! e ! k) =
                  (case basis of
                     None \<Rightarrow>
                       multiplyScalar (trajectory ((barycenter # points) ! e) ! k)
                         (scale settings)
                   | Some b \<Rightarrow>
                       multiplyScalar
                         (sub (trajectory ((barycenter # points) ! e) ! k) (b ! k))
                         (scale settings)))"
    by blast
qed

lemma example_basis:
  "frameTrajectory (frame example_settings) example_points example_barycenter
     = Inr (Some [Vector3 4 0 2, Vector3 5 0 2])"
  by (simp add: example_settings_def example_points_def index_def)

lemma example_lengths:
  "length (example_barycenter # example_points) \<le> length example_lines"
  "\<forall>e < length (example_barycenter # example_points).
     length (example_lines ! e) = length (trajectory ((example_barycenter # example_points) ! e))
     \<and> (\<forall>b. Some [Vector3 4 0 2, Vector3 5 0 2] = Some b \<longrightarrow> length (example_lines ! e) \<le> length b)"
  by (simp_all add: example_points_def example_lines_def example_barycenter_def
      less_Suc_eq nth_Cons')

lemma example_markers:
  "map length example_lines
     = map (\<lambda>p. length (trajectory p)) (example_barycenter # example_points)"
  by (simp add: example_points_def example_lines_def example_barycenter_def)

theorem ribbon_frame_relative_position_witness:
  "frameTrajectory (frame example_settings) example_points example_barycenter
     = Inr (Some [Vector3 4 0 2, Vector3 5 0 2])
   \<and> length (example_barycenter # example_points) \<le> length example_lines
   \<and> map length example_lines
       = map (\<lambda>p. length (trajectory p)) (example_barycenter # example_points)
   \<and> (\<exists>lns. updateLinesObject setFromUnitVectors example_points example_barycenter
               example_lines example_settings = Done lns
         \<and> Object3D.position (lns ! 0 ! 0) = Vector3 (- 6) 0 (- 4)
         \<and> Object3D.position (lns ! 1 ! 1) = Vector3 (- 10) 0 (- 4)
         \<and> Object3D.position (lns ! 2 ! 1) = Vector3 0 0 0)"
proof -
  from ribbon_frame_relative_position
    [OF example_basis example_lengths, of setFromUnitVectors]
  obtain lns where l: "updateLinesObject setFromUnitVectors example_points
      example_barycenter example_lines example_settings = Done lns"
    "\<forall>e < length (example_barycenter # example_points).
        \<forall>k < length (trajectory ((example_barycenter # example_points) ! e)).
          Object3D.position (lns ! e ! k) =
            multiplyScalar
              (sub (trajectory ((example_barycenter # example_points) ! e) ! k)
                 ([Vector3 4 0 2, Vector3 5 0 2] ! k))
              (scale example_settings)"
    by auto
  from l(2) [rule_format, of 0 0] l(2) [rule_format, of 1 1] l(2) [rule_format, of 2 1]
  have "Object3D.position (lns ! 0 ! 0) = Vector3 (- 6) 0 (- 4)
         \<and> Object3D.position (lns ! 1 ! 1) = Vector3 (- 10) 0 (- 4)
         \<and> Object3D.position (lns ! 2 ! 1) = Vector3 0 0 0"
    by (simp add: example_points_def example_barycenter_def example_settings_def)
  with l(1) example_basis example_lengths(1) example_markers show ?thesis by blast
qed

lemma vlength_normalize:
  assumes "vlength v \<noteq> 0"
  shows "vlength (normalize v) = 1"
proof (cases v)
  case (Vector3 a b c)
  define l where "l = sqrt (a * a + b * b + c * c)"
  from assms Vector3 have l0: "l \<noteq> 0" by (simp add: l_def)
  have l2: "l * l = a * a + b * b + c * c"
    unfolding l_def by (simp add: real_sqrt_mult_self)
  have "(a / l) * (a / l) + (b / l) * (b / l) + (c / l) * (c / l)
          = (a * a + b * b + c * c) / (l * l)"
    by (simp add: add_divide_distrib)
  also have "\<dots> = 1" using l0 by (simp add: l2 [symmetric])
  finally show ?thesis
    using Vector3 l0 by (simp add: l_def [symmetric] Let_def)
qed

lemma setFromUnitVectors_up:
  assumes unit: "dx * dx + dy * dy + dz * dz = 1"
    and far: "1 / 1000000 \<le> 1 + dy"
  shows "\<exists>qx qz qw.
           setFromUnitVectors (Vector3 0 1 0) (Vector3 dx dy dz) = Quaternion qx 0 qz qw
           \<and> 0 < qw \<and> dot (Vector3 qx 0 qz) (Vector3 dx dy dz) = 0
           \<and> applyQuaternion (Vector3 0 1 0) (Quaternion qx 0 qz qw) = Vector3 dx dy dz"
proof -
  define l where "l = sqrt (dz * dz + dx * dx + (dy + 1) * (dy + 1))"
  have s: "dz * dz + dx * dx + (dy + 1) * (dy + 1) = 2 * (1 + dy)"
    using unit by (simp add: algebra_simps)
  have pos: "0 < 2 * (1 + dy)" using far by simp
  have l2: "l * l = 2 * (1 + dy)"
    unfolding l_def s using pos by simp
  have lpos: "0 < l" unfolding l_def s using pos by simp
  then have l0: "l \<noteq> 0" by simp
  define k where "k = 1 / l"
  have kpos: "0 < k" unfolding k_def using lpos by simp
  have k2: "k * k = 1 / (2 * (1 + dy))"
    unfolding k_def using l2 by simp
  have q: "setFromUnitVectors (Vector3 0 1 0) (Vector3 dx dy dz)
      = Quaternion (dz * k) 0 (- dx * k) ((dy + 1) * k)"
    using far l0 by (simp add: Let_def l_def [symmetric] k_def)
  have w: "0 < (dy + 1) * k" using pos kpos by simp
  have a: "dot (Vector3 (dz * k) 0 (- dx * k)) (Vector3 dx dy dz) = 0" by simp
  have r: "applyQuaternion (Vector3 0 1 0) (Quaternion (dz * k) 0 (- dx * k) ((dy + 1) * k))
      = Vector3 (2 * dx * (dy + 1) * (k * k))
                (((dy + 1) * (dy + 1) - dz * dz - dx * dx) * (k * k))
                (2 * dz * (dy + 1) * (k * k))"
    by (simp add: Let_def algebra_simps)
  have y: "(dy + 1) * (dy + 1) - dz * dz - dx * dx = 2 * dy * (1 + dy)"
    using unit by (simp add: algebra_simps)
  have "Vector3 (2 * dx * (dy + 1) * (k * k))
                (((dy + 1) * (dy + 1) - dz * dz - dx * dx) * (k * k))
                (2 * dz * (dy + 1) * (k * k)) = Vector3 dx dy dz"
    unfolding y k2 using pos by (simp add: field_simps)
  with r have "applyQuaternion (Vector3 0 1 0)
      (Quaternion (dz * k) 0 (- dx * k) ((dy + 1) * k)) = Vector3 dx dy dz"
    by simp
  with q w a show ?thesis by blast
qed

lemma vlength_zero_iff: "vlength v = 0 \<longleftrightarrow> v = Vector3 0 0 0"
proof (cases v)
  case (Vector3 a b c)
  have "a * a + b * b + c * c = 0 \<longleftrightarrow> a = 0 \<and> b = 0 \<and> c = 0"
    by (simp add: add_nonneg_eq_0_iff)
  with Vector3 show ?thesis by simp
qed

lemma facing_unit:
  assumes "a \<noteq> b"
  shows "vlength (normalize (negate (sub a b))) = 1"
proof -
  have "negate (sub a b) \<noteq> Vector3 0 0 0"
    using assms by (cases a; cases b) auto
  then show ?thesis by (simp add: vlength_normalize vlength_zero_iff)
qed

lemma setFromUnitVectors_shortest_arc:
  assumes unit: "vlength d = 1"
    and far: "1 / 1000000 \<le> dot (Vector3 0 1 0) d + 1"
  shows "\<exists>qx qz qw. setFromUnitVectors (Vector3 0 1 0) d = Quaternion qx 0 qz qw
           \<and> 0 < qw \<and> dot (Vector3 qx 0 qz) d = 0
           \<and> applyQuaternion (Vector3 0 1 0) (Quaternion qx 0 qz qw) = d"
proof (cases d)
  case (Vector3 dx dy dz)
  from unit Vector3 have "dx * dx + dy * dy + dz * dz = 1" by simp
  moreover from far Vector3 have "1 / 1000000 \<le> 1 + dy" by simp
  ultimately show ?thesis unfolding Vector3 by (rule setFromUnitVectors_up)
qed

lemma setFromUnitVectors_near_opposite:
  "dot (Vector3 0 1 0) d + 1 < 1 / 1000000 \<Longrightarrow>
     setFromUnitVectors (Vector3 0 1 0) d = Quaternion 0 0 1 0"
  by (cases d) simp

lemma sqrt_lone_marker: "sqrt 16000008000001 = 4000001"
  by (rule real_sqrt_unique) simp_all

text \<open>
  C7, as the code has it.  Under the hypotheses of C1 (a line may be shorter than the trajectory), the
  updater completes and every marker \<open>(e, k)\<close> receives the orientation
  \<open>setFromUnitVectors (0, 1, 0) facing\<close>, where \<open>facing\<close> is the negated, normalized
  vector from the position just written for marker \<open>k - 1\<close> (the origin when
  \<open>k = 0\<close>) to the position just written for marker \<open>k\<close>.  With the routine of the
  rendering library, when the two positions differ and \<open>facing\<close> is not opposite to
  the up axis within the tolerance of the routine, that orientation rotates
  \<open>(0, 1, 0)\<close> onto \<open>facing\<close>, about an axis perpendicular to both and by less than
  a half turn: it is the rotation along the shortest arc.  When \<open>facing\<close> is within
  that tolerance of the opposite of the up axis, \<open>dot up facing + 1 < 1e-6\<close>, the
  routine returns the half turn about the z axis, whatever \<open>facing\<close> is.
\<close>

theorem ribbon_marker_orientation:
  fixes lines :: "'a Object3D_scheme list list"
  assumes "frameTrajectory (frame settings) points barycenter = Inr basis"
    and "length (barycenter # points) \<le> length lines"
    and "\<forall>e < length (barycenter # points).
           length (lines ! e) \<le> length (trajectory ((barycenter # points) ! e))
           \<and> (\<forall>b. basis = Some b \<longrightarrow> length (lines ! e) \<le> length b)"
  shows "\<exists>lns. updateLinesObject Q points barycenter lines settings = Done lns
         \<and> (\<forall>e < length (barycenter # points). \<forall>k < length (lines ! e).
              (let previousVertex =
                     (if k = 0 then Vector3 0 0 0 else Object3D.position (lns ! e ! (k - 1)));
                   facing = normalize (negate (sub (Object3D.position (lns ! e ! k))
                                                   previousVertex))
               in quaternion (lns ! e ! k) = Q (Vector3 0 1 0) facing
                  \<and> (Q = setFromUnitVectors
                       \<and> Object3D.position (lns ! e ! k) \<noteq> previousVertex
                       \<and> 1 / 1000000 \<le> dot (Vector3 0 1 0) facing + 1
                     \<longrightarrow> applyQuaternion (Vector3 0 1 0) (quaternion (lns ! e ! k)) = facing
                         \<and> (\<exists>qx qz qw. quaternion (lns ! e ! k) = Quaternion qx 0 qz qw
                               \<and> 0 < qw \<and> dot (Vector3 qx 0 qz) facing = 0))
                  \<and> (Q = setFromUnitVectors
                       \<and> dot (Vector3 0 1 0) facing + 1 < 1 / 1000000
                     \<longrightarrow> quaternion (lns ! e ! k) = Quaternion 0 0 1 0)))"
proof -
  from updateLinesObject_markers [OF assms, of Q]
  obtain lns where l: "updateLinesObject Q points barycenter lines settings = Done lns"
    "\<forall>e < length (barycenter # points). \<forall>k < length (lines ! e).
        quaternion (lns ! e ! k) =
          Q (Vector3 0 1 0)
            (normalize (negate (sub (Object3D.position (lns ! e ! k))
               (if k = 0 then zero else Object3D.position (lns ! e ! (k - 1))))))"
    by blast
  have "\<forall>e < length (barycenter # points). \<forall>k < length (lines ! e).
              (let previousVertex =
                     (if k = 0 then Vector3 0 0 0 else Object3D.position (lns ! e ! (k - 1)));
                   facing = normalize (negate (sub (Object3D.position (lns ! e ! k))
                                                   previousVertex))
               in quaternion (lns ! e ! k) = Q (Vector3 0 1 0) facing
                  \<and> (Q = setFromUnitVectors
                       \<and> Object3D.position (lns ! e ! k) \<noteq> previousVertex
                       \<and> 1 / 1000000 \<le> dot (Vector3 0 1 0) facing + 1
                     \<longrightarrow> applyQuaternion (Vector3 0 1 0) (quaternion (lns ! e ! k)) = facing
                         \<and> (\<exists>qx qz qw. quaternion (lns ! e ! k) = Quaternion qx 0 qz qw
                               \<and> 0 < qw \<and> dot (Vector3 qx 0 qz) facing = 0))
                  \<and> (Q = setFromUnitVectors
                       \<and> dot (Vector3 0 1 0) facing + 1 < 1 / 1000000
                     \<longrightarrow> quaternion (lns ! e ! k) = Quaternion 0 0 1 0))"
  proof (intro allI impI)
    fix e k
    assume e: "e < length (barycenter # points)" and k: "k < length (lines ! e)"
    define pv where
      "pv = (if k = 0 then Vector3 0 0 0 else Object3D.position (lns ! e ! (k - 1)))"
    define facing where
      "facing = normalize (negate (sub (Object3D.position (lns ! e ! k)) pv))"
    from l(2) e k have q: "quaternion (lns ! e ! k) = Q (Vector3 0 1 0) facing"
      by (simp add: facing_def pv_def zero_def)
    have "applyQuaternion (Vector3 0 1 0) (quaternion (lns ! e ! k)) = facing
            \<and> (\<exists>qx qz qw. quaternion (lns ! e ! k) = Quaternion qx 0 qz qw
                  \<and> 0 < qw \<and> dot (Vector3 qx 0 qz) facing = 0)"
      if "Q = setFromUnitVectors" "Object3D.position (lns ! e ! k) \<noteq> pv"
        "1 / 1000000 \<le> dot (Vector3 0 1 0) facing + 1"
    proof -
      from that(2) have "vlength facing = 1"
        unfolding facing_def by (rule facing_unit)
      from setFromUnitVectors_shortest_arc [OF this that(3)] q that(1)
      show ?thesis by auto
    qed
    moreover have "quaternion (lns ! e ! k) = Quaternion 0 0 1 0"
      if "Q = setFromUnitVectors" "dot (Vector3 0 1 0) facing + 1 < 1 / 1000000"
      using q that setFromUnitVectors_near_opposite [of facing] by simp
    ultimately show "(let previousVertex =
                     (if k = 0 then Vector3 0 0 0 else Object3D.position (lns ! e ! (k - 1)));
                   facing = normalize (negate (sub (Object3D.position (lns ! e ! k))
                                                   previousVertex))
               in quaternion (lns ! e ! k) = Q (Vector3 0 1 0) facing
                  \<and> (Q = setFromUnitVectors
                       \<and> Object3D.position (lns ! e ! k) \<noteq> previousVertex
                       \<and> 1 / 1000000 \<le> dot (Vector3 0 1 0) facing + 1
                     \<longrightarrow> applyQuaternion (Vector3 0 1 0) (quaternion (lns ! e ! k)) = facing
                         \<and> (\<exists>qx qz qw. quaternion (lns ! e ! k) = Quaternion qx 0 qz qw
                               \<and> 0 < qw \<and> dot (Vector3 qx 0 qz) facing = 0))
                  \<and> (Q = setFromUnitVectors
                       \<and> dot (Vector3 0 1 0) facing + 1 < 1 / 1000000
                     \<longrightarrow> quaternion (lns ! e ! k) = Quaternion 0 0 1 0))"
      unfolding Let_def pv_def [symmetric] facing_def [symmetric] using q by blast
  qed
  with l(1) show ?thesis by blast
qed


lemma example_lengths_le:
  "\<forall>e < length (example_barycenter # example_points).
     length (example_lines ! e) \<le> length (trajectory ((example_barycenter # example_points) ! e))
     \<and> (\<forall>b. Some [Vector3 4 0 2, Vector3 5 0 2] = Some b \<longrightarrow> length (example_lines ! e) \<le> length b)"
  using example_lengths(2) by (metis order_refl)

theorem ribbon_marker_orientation_witness:
  "frameTrajectory (frame example_settings) example_points example_barycenter
     = Inr (Some [Vector3 4 0 2, Vector3 5 0 2])
   \<and> length (example_barycenter # example_points) \<le> length example_lines
   \<and> map length example_lines
       = map (\<lambda>p. length (trajectory p)) (example_barycenter # example_points)
   \<and> (\<exists>lns. updateLinesObject setFromUnitVectors example_points example_barycenter
               example_lines example_settings = Done lns
         \<and> Object3D.position (lns ! 0 ! 0) = Vector3 (- 6) 0 (- 4)
         \<and> Object3D.position (lns ! 0 ! 1) = Vector3 (- 8) 0 (- 4)
         \<and> quaternion (lns ! 0 ! 1) = setFromUnitVectors (Vector3 0 1 0) (Vector3 1 0 0)
         \<and> applyQuaternion (Vector3 0 1 0) (quaternion (lns ! 0 ! 1)) = Vector3 1 0 0)
   \<and> frameTrajectory (frame fixed_settings) [] lone_marker = Inr None
   \<and> (\<exists>lns. updateLinesObject setFromUnitVectors [] lone_marker [[example_object]]
               fixed_settings = Done lns
         \<and> Object3D.position (lns ! 0 ! 0) = Vector3 4000 3999999 0
         \<and> quaternion (lns ! 0 ! 0) = Quaternion 0 0 1 0)"
proof -
  from ribbon_marker_orientation
    [OF example_basis example_lengths(1) example_lengths_le, of setFromUnitVectors]
  obtain lns where l: "updateLinesObject setFromUnitVectors example_points
      example_barycenter example_lines example_settings = Done lns"
    and o: "\<forall>e < length (example_barycenter # example_points). \<forall>k < length (example_lines ! e).
              (let previousVertex =
                     (if k = 0 then Vector3 0 0 0 else Object3D.position (lns ! e ! (k - 1)));
                   facing = normalize (negate (sub (Object3D.position (lns ! e ! k))
                                                   previousVertex))
               in quaternion (lns ! e ! k) = setFromUnitVectors (Vector3 0 1 0) facing
                  \<and> (setFromUnitVectors = setFromUnitVectors
                       \<and> Object3D.position (lns ! e ! k) \<noteq> previousVertex
                       \<and> 1 / 1000000 \<le> dot (Vector3 0 1 0) facing + 1
                     \<longrightarrow> applyQuaternion (Vector3 0 1 0) (quaternion (lns ! e ! k)) = facing
                         \<and> (\<exists>qx qz qw. quaternion (lns ! e ! k) = Quaternion qx 0 qz qw
                               \<and> 0 < qw \<and> dot (Vector3 qx 0 qz) facing = 0))
                  \<and> (setFromUnitVectors = setFromUnitVectors
                       \<and> dot (Vector3 0 1 0) facing + 1 < 1 / 1000000
                     \<longrightarrow> quaternion (lns ! e ! k) = Quaternion 0 0 1 0))"
    by blast
  from updateLinesObject_markers
    [OF example_basis example_lengths(1) example_lengths_le, of setFromUnitVectors] l
  have p: "\<forall>e < length (example_barycenter # example_points). \<forall>k < length (example_lines ! e).
      Object3D.position (lns ! e ! k) =
        multiplyScalar
          (sub (trajectory ((example_barycenter # example_points) ! e) ! k)
               ([Vector3 4 0 2, Vector3 5 0 2] ! k))
          (scale example_settings)"
    by auto
  have p0: "Object3D.position (lns ! 0 ! 0) = Vector3 (- 6) 0 (- 4)"
    using p [rule_format, of 0 0]
    by (simp add: example_lines_def example_barycenter_def example_settings_def)
  have p1: "Object3D.position (lns ! 0 ! 1) = Vector3 (- 8) 0 (- 4)"
    using p [rule_format, of 0 1]
    by (simp add: example_lines_def example_barycenter_def example_settings_def)
  have f: "normalize (negate (sub (Vector3 (- 8) 0 (- 4)) (Vector3 (- 6) 0 (- 4))))
             = Vector3 1 0 0"
    by simp
  have p1': "Object3D.position (lns ! 0 ! Suc 0) = Vector3 (- 8) 0 (- 4)"
    using p1 by simp
  from o [rule_format, of 0 1]
  have "quaternion (lns ! 0 ! 1) = setFromUnitVectors (Vector3 0 1 0) (Vector3 1 0 0)
         \<and> applyQuaternion (Vector3 0 1 0) (quaternion (lns ! 0 ! 1)) = Vector3 1 0 0"
    unfolding Let_def
    by (auto simp add: example_lines_def p0 p1' f simp del: normalize.simps
          setFromUnitVectors.simps negate.simps sub.simps applyQuaternion.simps)
  with l p0 p1 have first: "\<exists>lns. updateLinesObject setFromUnitVectors example_points
               example_barycenter example_lines example_settings = Done lns
         \<and> Object3D.position (lns ! 0 ! 0) = Vector3 (- 6) 0 (- 4)
         \<and> Object3D.position (lns ! 0 ! 1) = Vector3 (- 8) 0 (- 4)
         \<and> quaternion (lns ! 0 ! 1) = setFromUnitVectors (Vector3 0 1 0) (Vector3 1 0 0)
         \<and> applyQuaternion (Vector3 0 1 0) (quaternion (lns ! 0 ! 1)) = Vector3 1 0 0"
    by blast
  have fb: "frameTrajectory (frame fixed_settings) [] lone_marker = Inr None"
    by (simp add: fixed_settings_def)
  have fl: "length [lone_marker] \<le> length [[example_object]]" by simp
  have fs: "\<forall>e < length [lone_marker].
      length ([[example_object]] ! e) \<le> length (trajectory ([lone_marker] ! e))
      \<and> (\<forall>b. None = Some b \<longrightarrow> length ([[example_object]] ! e) \<le> length b)"
    by (simp add: lone_marker_def)
  from ribbon_marker_orientation [OF fb fl fs, of setFromUnitVectors]
  obtain lns2 where l2: "updateLinesObject setFromUnitVectors [] lone_marker
      [[example_object]] fixed_settings = Done lns2"
    and o2: "\<forall>e < length [lone_marker]. \<forall>k < length ([[example_object]] ! e).
              (let previousVertex =
                     (if k = 0 then Vector3 0 0 0 else Object3D.position (lns2 ! e ! (k - 1)));
                   facing = normalize (negate (sub (Object3D.position (lns2 ! e ! k))
                                                   previousVertex))
               in setFromUnitVectors = setFromUnitVectors
                       \<and> dot (Vector3 0 1 0) facing + 1 < 1 / 1000000
                     \<longrightarrow> quaternion (lns2 ! e ! k) = Quaternion 0 0 1 0)"
    unfolding Let_def by blast
  from updateLinesObject_markers [OF fb fl fs, of setFromUnitVectors] l2
  have "\<forall>e < length [lone_marker]. \<forall>k < length ([[example_object]] ! e).
      Object3D.position (lns2 ! e ! k) =
        multiplyScalar (sub (trajectory ([lone_marker] ! e) ! k) zero) (scale fixed_settings)"
    by auto
  from this [rule_format, of 0 0]
  have q0: "Object3D.position (lns2 ! 0 ! 0) = Vector3 4000 3999999 0"
    by (simp add: lone_marker_def fixed_settings_def zero_def)
  have f2: "normalize (negate (sub (Vector3 4000 3999999 0) (Vector3 0 0 0)))
      = Vector3 (- 4000 / 4000001) (- 3999999 / 4000001) 0"
    by (simp add: sqrt_lone_marker)
  from o2 [rule_format, of 0 0]
  have "quaternion (lns2 ! 0 ! 0) = Quaternion 0 0 1 0"
    unfolding Let_def
    by (simp add: q0 f2 del: normalize.simps negate.simps sub.simps)
  with l2 q0 have second: "\<exists>lns. updateLinesObject setFromUnitVectors [] lone_marker
               [[example_object]] fixed_settings = Done lns
         \<and> Object3D.position (lns ! 0 ! 0) = Vector3 4000 3999999 0
         \<and> quaternion (lns ! 0 ! 0) = Quaternion 0 0 1 0"
    by blast
  from first second fb example_basis example_lengths(1) example_markers show ?thesis
    by blast
qed

text \<open>
  The lone marker at \<open>(4000, 3999999, 0)\<close>: the facing direction is the unit vector
  \<open>(-4000, -3999999, 0) / 4000001\<close>, within the tolerance of the opposite of the up
  axis, and the marker receives the half turn about the z axis, which takes
  \<open>(0, 1, 0)\<close> onto \<open>(0, -1, 0)\<close> and not onto the facing direction.
\<close>

theorem near_opposite_direction_counterexample:
  "updateLinesObject setFromUnitVectors [] lone_marker [[example_object]] fixed_settings
     = Done [[\<lparr>position = Vector3 4000 3999999 0, quaternion = Quaternion 0 0 1 0\<rparr>]]
   \<and> normalize (negate (sub (Vector3 4000 3999999 0) zero))
       = Vector3 (- 4000 / 4000001) (- 3999999 / 4000001) 0
   \<and> applyQuaternion (Vector3 0 1 0) (Quaternion 0 0 1 0) = Vector3 0 (- 1) 0
   \<and> Vector3 0 (- 1) 0 \<noteq> Vector3 (- 4000 / 4000001) (- 3999999 / 4000001) 0"
  by (simp add: updateLinesObject_def updateVertex_def lone_marker_def fixed_settings_def
      example_object_def index_def get_def zero_def sqrt_lone_marker Let_def)

subsection \<open>Unit and time formatter\<close>

lemma js_rem_3: "js_rem e 3 = (if e < 0 then - ((- e) mod 3) else e mod 3)"
  by (simp add: js_rem_def sgn_if)

lemma exp3_floor:
  "e - js_rem e 3 + (if e < 0 \<and> js_rem e 3 \<noteq> 0 then - 3 else 0) = 3 * (e div 3)"
  unfolding js_rem_3 by (simp; presburger)

lemma floor_log10_iff:
  assumes "0 < x"
  shows "\<lfloor>log 10 x\<rfloor> = k \<longleftrightarrow> 10 powi k \<le> x \<and> x < 10 powi (k + 1)"
proof -
  have "(10::real) powr real_of_int k = 10 powi k"
    by (rule powr_real_of_int') simp_all
  moreover have "(10::real) powr (real_of_int k + 1) = 10 powi (k + 1)"
    using powr_real_of_int' [of "10::real" "k + 1"] by simp
  ultimately show ?thesis
    using assms floor_log_eq_powr_iff [of x 10 k] by simp
qed

lemma makeUnit_positive:
  assumes "0 < si" and "e = \<lfloor>log 10 si\<rfloor>"
  shows "makeUnit c si =
     (if e < 3 \<and> e \<ge> 0 then \<lparr>val = Num si, unit = Some (UnitPrefix_None c)\<rparr>
      else if e \<ge> 24 then \<lparr>val = Num (si / 10 ^ 9), unit = Some (UnitPrefix_Giga c)\<rparr>
      else if e \<le> - 24 then
        \<lparr>val = Num (si / (1 / 10 ^ 9)), unit = Some (UnitPrefix_Nano c)\<rparr>
      else \<lparr>val = Num (si * 10 powi (- (3 * (e div 3)))),
            unit = UNIT_MAP c (3 * (e div 3))\<rparr>)"
proof -
  from assms(1) have n: "(si < 0) = False" "(si = 0) = False" by simp_all
  show ?thesis
    unfolding makeUnit_def Let_def exp3_floor assms(2) [symmetric]
    by (simp only: n if_False)
qed

text \<open>
  C3, as the code has it.  For a strictly positive \<open>si\<close> with \<open>e = \<lfloor>log10 si\<rfloor>\<close>: if \<open>0 \<le> e < 3\<close> the
  formatter returns \<open>si\<close> itself with \<^verbatim>\<open>UnitPrefix.None\<close>; if \<open>e \<ge> 24\<close> it returns
  \<open>si / 1e9\<close> with \<^verbatim>\<open>UnitPrefix.Giga\<close>; if \<open>e \<le> -24\<close> it returns \<open>si * 1e9\<close> with
  \<^verbatim>\<open>UnitPrefix.Nano\<close>.
\<close>

theorem makeUnit_unscaled_or_collapsed:
  assumes "0 < si" and "e = \<lfloor>log 10 si\<rfloor>"
  shows "(0 \<le> e \<and> e < 3 \<longrightarrow>
            makeUnit c si = \<lparr>val = Num si, unit = Some (UnitPrefix_None c)\<rparr>)
       \<and> (24 \<le> e \<longrightarrow>
            makeUnit c si = \<lparr>val = Num (si / 10 ^ 9), unit = Some (UnitPrefix_Giga c)\<rparr>)
       \<and> (e \<le> - 24 \<longrightarrow>
            makeUnit c si = \<lparr>val = Num (si * 10 ^ 9), unit = Some (UnitPrefix_Nano c)\<rparr>)"
  unfolding makeUnit_positive [OF assms] by simp

theorem makeUnit_unscaled_or_collapsed_witness:
  "\<lfloor>log 10 (250 :: real)\<rfloor> = 2
   \<and> makeUnit example_units 250 = \<lparr>val = Num 250, unit = Some ''''\<rparr>
   \<and> \<lfloor>log 10 (3 * 10 ^ 25 :: real)\<rfloor> = 25
   \<and> makeUnit example_units (3 * 10 ^ 25) = \<lparr>val = Num (3 * 10 ^ 16), unit = Some ''G''\<rparr>
   \<and> \<lfloor>log 10 (2 / 10 ^ 25 :: real)\<rfloor> = - 25
   \<and> makeUnit example_units (2 / 10 ^ 25) = \<lparr>val = Num (2 / 10 ^ 16), unit = Some ''n''\<rparr>"
proof -
  have a: "\<lfloor>log 10 (250 :: real)\<rfloor> = 2" by (simp add: floor_log10_iff)
  have b: "\<lfloor>log 10 (3 * 10 ^ 25 :: real)\<rfloor> = 25" by (simp add: floor_log10_iff)
  have c: "\<lfloor>log 10 (2 / 10 ^ 25 :: real)\<rfloor> = - 25" by (simp add: floor_log10_iff)
  from makeUnit_unscaled_or_collapsed [of 250 2 example_units] a
  have "makeUnit example_units 250 = \<lparr>val = Num 250, unit = Some ''''\<rparr>"
    by (simp add: example_units_def)
  moreover from makeUnit_unscaled_or_collapsed [of "3 * 10 ^ 25" 25 example_units] b
  have "makeUnit example_units (3 * 10 ^ 25) = \<lparr>val = Num (3 * 10 ^ 16), unit = Some ''G''\<rparr>"
    by (simp add: example_units_def)
  moreover from makeUnit_unscaled_or_collapsed [of "2 / 10 ^ 25" "- 25" example_units] c
  have "makeUnit example_units (2 / 10 ^ 25) = \<lparr>val = Num (2 / 10 ^ 16), unit = Some ''n''\<rparr>"
    by (simp add: example_units_def)
  ultimately show ?thesis using a b c by blast
qed

text \<open>
  Giga and nano are the prefixes of the factor \<open>1e9\<close> of the two collapsed tiers, not
  the largest and the smallest prefix that the formatter supports: with the table of
  the spec, \<open>3e25\<close> is returned as \<open>3e16\<close> giga while \<open>1e21\<close> is returned as 1 zetta,
  and \<open>2e-25\<close> as \<open>2e-16\<close> nano while \<open>5e-23\<close> is returned as 50 yocto.
\<close>

theorem giga_not_largest_prefix_counterexample:
  "makeUnit example_units (3 * 10 ^ 25) = \<lparr>val = Num (3 * 10 ^ 16), unit = Some ''G''\<rparr>
   \<and> makeUnit example_units (10 ^ 21) = \<lparr>val = Num 1, unit = Some ''Z''\<rparr>
   \<and> UNIT_MAP example_units 9 = Some (UnitPrefix_Giga example_units)
   \<and> makeUnit example_units (2 / 10 ^ 25) = \<lparr>val = Num (2 / 10 ^ 16), unit = Some ''n''\<rparr>
   \<and> makeUnit example_units (5 / 10 ^ 23) = \<lparr>val = Num 50, unit = Some ''y''\<rparr>
   \<and> UNIT_MAP example_units (- 9) = Some (UnitPrefix_Nano example_units)"
proof -
  have a: "\<lfloor>log 10 (3 * 10 ^ 25 :: real)\<rfloor> = 25" by (simp add: floor_log10_iff)
  have b: "\<lfloor>log 10 (10 ^ 21 :: real)\<rfloor> = 21" by (simp add: floor_log10_iff)
  have c: "\<lfloor>log 10 (2 / 10 ^ 25 :: real)\<rfloor> = - 25" by (simp add: floor_log10_iff)
  have d: "\<lfloor>log 10 (5 / 10 ^ 23 :: real)\<rfloor> = - 23" by (simp add: floor_log10_iff)
  show ?thesis
    using makeUnit_positive [OF _ a [symmetric], of example_units]
      makeUnit_positive [OF _ b [symmetric], of example_units]
      makeUnit_positive [OF _ c [symmetric], of example_units]
      makeUnit_positive [OF _ d [symmetric], of example_units]
    by (simp add: example_units_def)
qed

text \<open>
  C4.  For a strictly positive \<open>si\<close> with \<open>e = \<lfloor>log10 si\<rfloor>\<close>, \<open>-24 < e < 24\<close> and not
  \<open>0 \<le> e < 3\<close>, the formatter scales by \<open>10 ^ - exp3\<close> and looks \<open>exp3\<close> up in the
  table, where \<open>exp3\<close> is the multiple of 3 with \<open>exp3 \<le> e < exp3 + 3\<close> (so \<open>e = -2\<close>
  gives \<open>-3\<close>), and the value it returns satisfies \<open>value * 10 ^ exp3 = si\<close>.
\<close>

theorem makeUnit_bucket_round_trip:
  assumes "0 < si" and "e = \<lfloor>log 10 si\<rfloor>"
    and "- 24 < e" and "e < 24" and "\<not> (0 \<le> e \<and> e < 3)"
  shows "\<exists>exp3 v. makeUnit c si = \<lparr>val = Num v, unit = UNIT_MAP c exp3\<rparr>
           \<and> 3 dvd exp3 \<and> exp3 \<le> e \<and> e < exp3 + 3
           \<and> v = si * 10 powi (- exp3)
           \<and> v * 10 powi exp3 = si"
proof -
  define exp3 where "exp3 = 3 * (e div 3)"
  have m: "makeUnit c si = \<lparr>val = Num (si * 10 powi (- exp3)), unit = UNIT_MAP c exp3\<rparr>"
    unfolding makeUnit_positive [OF assms(1,2)] exp3_def using assms(3-5) by auto
  have "3 dvd exp3" "exp3 \<le> e" "e < exp3 + 3"
    unfolding exp3_def by presburger+
  moreover have "si * 10 powi (- exp3) * 10 powi exp3 = si"
    by (simp add: power_int_minus)
  ultimately show ?thesis using m by blast
qed

theorem makeUnit_bucket_round_trip_witness:
  "(0 :: real) < 5 / 100 \<and> \<lfloor>log 10 (5 / 100 :: real)\<rfloor> = - 2
   \<and> makeUnit example_units (5 / 100) = \<lparr>val = Num 50, unit = Some ''m''\<rparr>
   \<and> (50 :: real) * 10 powi (- 3) = 5 / 100"
proof -
  have a: "\<lfloor>log 10 (5 / 100 :: real)\<rfloor> = - 2" by (simp add: floor_log10_iff)
  from makeUnit_bucket_round_trip [of "5 / 100" "- 2" example_units] a
  obtain exp3 v where h: "makeUnit example_units (5 / 100) = \<lparr>val = Num v, unit = UNIT_MAP example_units exp3\<rparr>"
    "3 dvd exp3" "exp3 \<le> - 2" "- 2 < exp3 + 3" "v = 5 / 100 * 10 powi (- exp3)"
    by auto
  from h(2-4) have "exp3 = - 3" by presburger
  with h(1,5) have "makeUnit example_units (5 / 100) = \<lparr>val = Num 50, unit = Some ''m''\<rparr>"
    by (simp add: example_units_def)
  then show ?thesis using a by simp
qed

text \<open>
  C2, as the code has it.  With positive durations, the humanizer tests whole
  years, months, days, hours and minutes in this order and returns on the first test
  that holds: for years a single number, the years to two decimals; for months the
  months to two decimals, followed by a day part; for days, hours and minutes the
  whole count followed by the floor of the next finer unit modulo 24, 60 and 60.
  When no test holds it formats the result of \<open>makeUnit\<close> as a number of seconds.
\<close>

theorem makeTime_cascade:
  assumes "0 < Year d" and "0 < Month d" and "0 < Day d" and "0 < Hour d"
    and "0 < Minutes d"
  shows "(1 \<le> secs / Year d \<longrightarrow>
            makeTime d c secs = [Fixed2 (Num (secs / Year d)), Text '' years''])
       \<and> (secs / Year d < 1 \<and> 1 \<le> secs / Month d \<longrightarrow>
            (\<exists>n. makeTime d c secs =
               [Fixed2 (Num (secs / Month d)), Text '' m '', Whole n, Text '' d'']))
       \<and> (secs / Year d < 1 \<and> secs / Month d < 1 \<and> 1 \<le> secs / Day d \<longrightarrow>
            makeTime d c secs =
              [Whole \<lfloor>secs / Day d\<rfloor>, Text '' d '',
               Whole \<lfloor>fmod (secs / Hour d) 24\<rfloor>, Text '' h''])
       \<and> (secs / Year d < 1 \<and> secs / Month d < 1 \<and> secs / Day d < 1
            \<and> 1 \<le> secs / Hour d \<longrightarrow>
            makeTime d c secs =
              [Whole \<lfloor>secs / Hour d\<rfloor>, Text '' h '',
               Whole \<lfloor>fmod (secs / Minutes d) 60\<rfloor>, Text '' m''])
       \<and> (secs / Year d < 1 \<and> secs / Month d < 1 \<and> secs / Day d < 1
            \<and> secs / Hour d < 1 \<and> 1 \<le> secs / Minutes d \<longrightarrow>
            makeTime d c secs =
              [Whole \<lfloor>secs / Minutes d\<rfloor>, Text '' m '',
               Whole \<lfloor>fmod secs 60\<rfloor>, Text '' s''])
       \<and> (secs / Year d < 1 \<and> secs / Month d < 1 \<and> secs / Day d < 1
            \<and> secs / Hour d < 1 \<and> secs / Minutes d < 1 \<longrightarrow>
            makeTime d c secs =
              [Fixed2 (val (makeUnit c secs)), Text '' '',
               Prefix (unit (makeUnit c secs)), Text ''s''])"
  by (simp add: makeTime_def Let_def not_le)

lemma example_duration_positive:
  "0 < Year example_duration" "0 < Month example_duration" "0 < Day example_duration"
  "0 < Hour example_duration" "0 < Minutes example_duration"
  by (simp_all add: example_duration_def)

lemma makeUnit_30: "makeUnit example_units 30 = \<lparr>val = Num 30, unit = Some ''''\<rparr>"
proof -
  have "\<lfloor>log 10 (30 :: real)\<rfloor> = 1" by (simp add: floor_log10_iff)
  from makeUnit_positive [OF _ this [symmetric], of example_units]
  show ?thesis by (simp add: example_units_def)
qed

theorem makeTime_cascade_witness:
  "0 < Year example_duration \<and> 0 < Month example_duration \<and> 0 < Day example_duration
   \<and> 0 < Hour example_duration \<and> 0 < Minutes example_duration
   \<and> makeTime example_duration example_units 63072000 = [Fixed2 (Num 2), Text '' years'']
   \<and> (\<exists>n. makeTime example_duration example_units 3888000
       = [Fixed2 (Num (3 / 2)), Text '' m '', Whole n, Text '' d''])
   \<and> makeTime example_duration example_units 86400
       = [Whole 1, Text '' d '', Whole 0, Text '' h'']
   \<and> makeTime example_duration example_units 3600
       = [Whole 1, Text '' h '', Whole 0, Text '' m'']
   \<and> makeTime example_duration example_units 90
       = [Whole 1, Text '' m '', Whole 30, Text '' s'']
   \<and> makeTime example_duration example_units 30
       = [Fixed2 (Num 30), Text '' '', Prefix (Some ''''), Text ''s'']"
proof -
  note t = makeTime_cascade [OF example_duration_positive, of _ example_units]
  have "makeTime example_duration example_units 63072000 = [Fixed2 (Num 2), Text '' years'']"
    using t [of 63072000] by (simp add: example_duration_def)
  moreover have "\<exists>n. makeTime example_duration example_units 3888000
       = [Fixed2 (Num (3 / 2)), Text '' m '', Whole n, Text '' d'']"
    using t [of 3888000] by (simp add: example_duration_def)
  moreover have "makeTime example_duration example_units 86400
       = [Whole 1, Text '' d '', Whole 0, Text '' h'']"
    using t [of 86400] by (simp add: example_duration_def fmod_def)
  moreover have "makeTime example_duration example_units 3600
       = [Whole 1, Text '' h '', Whole 0, Text '' m'']"
    using t [of 3600] by (simp add: example_duration_def fmod_def)
  moreover have "makeTime example_duration example_units 90
       = [Whole 1, Text '' m '', Whole 30, Text '' s'']"
    using t [of 90] by (simp add: example_duration_def fmod_def)
  moreover have "makeTime example_duration example_units 30
       = [Fixed2 (Num 30), Text '' '', Prefix (Some ''''), Text ''s'']"
    using t [of 30] by (simp add: example_duration_def makeUnit_30)
  ultimately show ?thesis using example_duration_positive by blast
qed

text \<open>
  The year branch returns one number and no remainder: 31536000 seconds, one year of
  the example, give \<open>1.00 years\<close>.  The month branch prints the floor of
  \<open>months % 30\<close> as days: 3888000 seconds are one month and 15 days, and the day
  part is 1.
\<close>

theorem makeTime_year_and_month_counterexample:
  "makeTime example_duration example_units 31536000 = [Fixed2 (Num 1), Text '' years'']
   \<and> makeTime example_duration example_units 3888000
       = [Fixed2 (Num (3 / 2)), Text '' m '', Whole 1, Text '' d'']
   \<and> \<lfloor>(3888000 - 1 * Month example_duration) / Day example_duration\<rfloor> = 15"
  by (simp add: makeTime_def example_duration_def fmod_def)

subsection \<open>Camera-relative overlay scaler\<close>

lemma geometry_scale_map:
  "geometry_scale vs t t t = map (\<lambda>v. multiplyScalar v t) vs"
  by (induction vs t t t rule: geometry_scale.induct) simp_all

lemma multiplyScalar_one: "multiplyScalar v 1 = v"
  by (cases v) simp

lemma geometry_scale_one: "geometry_scale vs 1 1 1 = vs"
  by (simp add: geometry_scale_map multiplyScalar_one)

text \<open>
  C8.  For a camera with \<open>zoom \<noteq> 0\<close> and \<open>top \<noteq> bottom\<close>, and a previous scale other
  than zero, the scaler computes \<open>currentScale = (top - bottom) / zoom / 800\<close>,
  multiplies the position and every vertex of the geometry of each mesh by
  \<open>transfer = currentScale / previousScale\<close> and returns \<open>currentScale\<close>.  A second
  call with the same camera, on the meshes and the scale that the first call
  returned, has \<open>transfer = 1\<close> and returns the meshes unchanged.
\<close>

theorem overlay_scaler:
  fixes meshes :: "'a Mesh_scheme list"
  assumes "zoom camera \<noteq> 0" and "camera_top camera \<noteq> camera_bottom camera"
    and "scaleF \<noteq> 0"
    and "currentScale = (camera_top camera - camera_bottom camera) / zoom camera / 800"
    and "transfer = currentScale / scaleF"
  shows "updateAxesMesh camera meshes scaleF =
           (map (\<lambda>mesh. mesh
                  \<lparr>Object3D.position := multiplyScalar (Object3D.position mesh) transfer,
                   geometry := map (\<lambda>v. multiplyScalar v transfer) (geometry mesh)\<rparr>)
              meshes,
            currentScale)
       \<and> currentScale / currentScale = 1
       \<and> updateAxesMesh camera (fst (updateAxesMesh camera meshes scaleF))
             (snd (updateAxesMesh camera meshes scaleF))
           = (fst (updateAxesMesh camera meshes scaleF), currentScale)"
proof -
  have first: "updateAxesMesh camera meshes scaleF =
           (map (\<lambda>mesh. mesh
                  \<lparr>Object3D.position := multiplyScalar (Object3D.position mesh) transfer,
                   geometry := map (\<lambda>v. multiplyScalar v transfer) (geometry mesh)\<rparr>)
              meshes,
            currentScale)"
    by (simp add: updateAxesMesh_def Let_def assms(4,5) geometry_scale_map)
  have nz: "currentScale \<noteq> 0" using assms(1,2,4) by simp
  then have one: "currentScale / currentScale = 1" by simp
  have second: "updateAxesMesh camera ms currentScale = (ms, currentScale)"
    for ms :: "'a Mesh_scheme list"
    unfolding updateAxesMesh_def Let_def assms(4) [symmetric] one
    by (simp add: geometry_scale_one multiplyScalar_one)
  show ?thesis using first one second by simp
qed


theorem overlay_scaler_witness:
  "zoom example_camera \<noteq> 0 \<and> camera_top example_camera \<noteq> camera_bottom example_camera
   \<and> (1 :: real) \<noteq> 0
   \<and> updateAxesMesh example_camera [example_mesh] 1
       = ([\<lparr>position = Vector3 1 2 3, quaternion = Quaternion 0 0 0 1,
             geometry = [Vector3 (1 / 2) 0 0, Vector3 0 1 0]\<rparr>], 1 / 2)
   \<and> updateAxesMesh example_camera
         [\<lparr>position = Vector3 1 2 3, quaternion = Quaternion 0 0 0 1,
            geometry = [Vector3 (1 / 2) 0 0, Vector3 0 1 0]\<rparr>] (1 / 2)
       = ([\<lparr>position = Vector3 1 2 3, quaternion = Quaternion 0 0 0 1,
             geometry = [Vector3 (1 / 2) 0 0, Vector3 0 1 0]\<rparr>], 1 / 2)"
proof -
  have c: "zoom example_camera \<noteq> 0" "camera_top example_camera \<noteq> camera_bottom example_camera"
    by (simp_all add: example_camera_def)
  have s: "(1 / 2 :: real) = (camera_top example_camera - camera_bottom example_camera)
              / zoom example_camera / 800"
    by (simp add: example_camera_def)
  have t: "(1 / 2 :: real) = 1 / 2 / 1" by simp
  have o: "(1 :: real) \<noteq> 0" by simp
  note w = overlay_scaler [OF c o s t, of "[example_mesh]"]
  from w have first: "updateAxesMesh example_camera [example_mesh] 1
       = ([\<lparr>position = Vector3 1 2 3, quaternion = Quaternion 0 0 0 1,
             geometry = [Vector3 (1 / 2) 0 0, Vector3 0 1 0]\<rparr>], 1 / 2)"
    by (simp add: example_mesh_def)
  from w have "updateAxesMesh example_camera
                 (fst (updateAxesMesh example_camera [example_mesh] 1))
                 (snd (updateAxesMesh example_camera [example_mesh] 1))
               = (fst (updateAxesMesh example_camera [example_mesh] 1), 1 / 2)"
    by blast
  then have "updateAxesMesh example_camera
         [\<lparr>position = Vector3 1 2 3, quaternion = Quaternion 0 0 0 1,
            geometry = [Vector3 (1 / 2) 0 0, Vector3 0 1 0]\<rparr>] (1 / 2)
       = ([\<lparr>position = Vector3 1 2 3, quaternion = Quaternion 0 0 0 1,
             geometry = [Vector3 (1 / 2) 0 0, Vector3 0 1 0]\<rparr>], 1 / 2)"
    unfolding first by simp
  with first c o show ?thesis by blast
qed

subsection \<open>Simulation step\<close>

lemma points_loop:
  assumes "n \<le> length points" and "n \<le> length states"
  shows "forEach
           (\<lambda>idx pts.
              case index states (int idx) of
                None \<Rightarrow> Threw TypeError pts
              | Some q \<Rightarrow> Done (pts[idx := update (pts ! idx) (state q)]))
           [0..<n] points
         = Done (map (\<lambda>i. if i < n then update (points ! i) (state (states ! i))
                           else points ! i) [0..<length points])"
  using assms
proof (induction n)
  case 0
  then show ?case by (simp add: map_nth)
next
  case (Suc n)
  let ?pts = "map (\<lambda>i. if i < n then update (points ! i) (state (states ! i))
                           else points ! i) [0..<length points]"
  from Suc have h: "forEach
           (\<lambda>idx pts.
              case index states (int idx) of
                None \<Rightarrow> Threw TypeError pts
              | Some q \<Rightarrow> Done (pts[idx := update (pts ! idx) (state q)]))
           [0..<n] points = Done ?pts"
    by simp
  from Suc.prems(2) have i: "index states (int n) = Some (states ! n)"
    by (simp add: index_def)
  have "?pts[n := update (?pts ! n) (state (states ! n))]
        = map (\<lambda>i. if i < Suc n then update (points ! i) (state (states ! i))
                           else points ! i) [0..<length points]"
    using Suc.prems(1) by (intro nth_equalityI) (auto simp: nth_list_update less_Suc_eq)
  then show ?case
    by (simp only: forEach_upt_Suc h outcome.case i option.case)
qed

text \<open>
  C10.  With \<open>settings.samples \<noteq> 0\<close>, \<open>updateSimulation\<close> calls \<open>advance\<close> with the
  duration \<open>settings.speed\<close> on the solver whose step is already
  \<open>settings.speed / settings.samples\<close>; when the solver returns a state for every
  body, body \<open>i\<close> is updated from state \<open>i\<close>, and the barycenter is updated from the
  list of the bodies after their update.
\<close>

theorem simulation_step_order:
  assumes "samples settings \<noteq> 0"
    and "advance (solver\<lparr>timer := (timer solver)\<lparr>dt := speed settings / samples settings\<rparr>\<rparr>)
           (speed settings) = (states, solver')"
    and "length points \<le> length states"
  shows "\<exists>pts. updateSimulation advance state update updateBarycenter
                 points barycenter solver settings
               = Done (pts, updateBarycenter barycenter pts, solver')
           \<and> length pts = length points
           \<and> (\<forall>i < length points. pts ! i = update (points ! i) (state (states ! i)))"
proof -
  let ?pts = "map (\<lambda>i. update (points ! i) (state (states ! i))) [0..<length points]"
  from points_loop [OF order_refl assms(3), of update state]
  have "forEach
           (\<lambda>idx pts.
              case index states (int idx) of
                None \<Rightarrow> Threw TypeError pts
              | Some q \<Rightarrow> Done (pts[idx := update (pts ! idx) (state q)]))
           [0..<length points] points = Done ?pts"
    by (simp cong: map_cong)
  then have "updateSimulation advance state update updateBarycenter
                 points barycenter solver settings
               = Done (?pts, updateBarycenter barycenter ?pts, solver')"
    by (simp add: updateSimulation_def Let_def assms(2))
  moreover have "length ?pts = length points" by simp
  moreover have "\<forall>i < length points. ?pts ! i = update (points ! i) (state (states ! i))"
    by simp
  ultimately show ?thesis by blast
qed

theorem simulation_step_order_witness:
  "samples example_settings \<noteq> 0
   \<and> updateSimulation example_advance (\<lambda>q. q) (\<lambda>p v. v) (\<lambda>b pts. sum_list pts)
        [0, 0] (0 :: real) example_solver example_settings
       = Done ([15, 60], 75, \<lparr>timer = \<lparr>dt = 15\<rparr>\<rparr>)"
proof -
  have s: "samples example_settings \<noteq> 0" by (simp add: example_settings_def)
  have a: "example_advance
      (example_solver\<lparr>timer := (timer example_solver)
          \<lparr>dt := speed example_settings / samples example_settings\<rparr>\<rparr>)
      (speed example_settings) = ([15, 60 :: real], \<lparr>timer = \<lparr>dt = 15\<rparr>\<rparr>)"
    by (simp add: example_settings_def example_advance_def example_solver_def)
  have l: "length [0, 0 :: real] \<le> length [15, 60 :: real]" by simp
  from simulation_step_order [where advance = example_advance and solver = example_solver
      and settings = example_settings and state = "\<lambda>q. q" and update = "\<lambda>p v. v"
      and updateBarycenter = "\<lambda>b pts. sum_list pts" and barycenter = 0, OF s a l]
  obtain pts where p: "updateSimulation example_advance (\<lambda>q. q) (\<lambda>p v. v)
        (\<lambda>b pts. sum_list pts) [0, 0] (0 :: real) example_solver example_settings
       = Done (pts, sum_list pts, \<lparr>timer = \<lparr>dt = 15\<rparr>\<rparr>)"
    "length pts = 2" "pts ! 0 = 15" "pts ! 1 = 60"
    by (auto simp: less_Suc_eq)
  from p(2-4) have "pts = [15, 60]"
    by (cases pts; cases "tl pts") auto
  with p(1) s show ?thesis by simp
qed

subsection \<open>Precondition violations\<close>

lemma framePosition_invalid:
  "i < 0 \<or> length points \<le> nat i \<Longrightarrow>
     framePosition (BodyRelative i) points barycenter = Inl TypeError"
  by (auto simp: index_def)

lemma frameTrajectory_invalid:
  "i < 0 \<or> length points \<le> nat i \<Longrightarrow>
     frameTrajectory (BodyRelative i) points barycenter = Inl TypeError"
  by (auto simp: index_def)

lemma normalize_zero: "normalize (negate (sub v v)) = Vector3 0 0 0"
  by (cases v) simp

text \<open>
  C9, as the code has it.  The module has no guard of its own.  A frame selector
  whose body index is outside the body list makes the resolver raise a
  \<^verbatim>\<open>TypeError\<close> before anything is written: the projector, the sphere updater and
  the ribbon updater leave with the render objects unchanged.  A direction of length
  zero raises nothing: on well-formed input the ribbon updater completes, and a
  marker whose position coincides with the previous one (the origin for \<open>k = 0\<close>)
  receives \<open>setFromUnitVectors (0, 1, 0) (0, 0, 0)\<close>.  A non-positive magnitude raises
  nothing: \<open>makeUnit\<close> returns \<^verbatim>\<open>NaN\<close> with an undefined unit for a negative number
  and 0 with \<^verbatim>\<open>UnitPrefix.Nano\<close> for 0.
\<close>

theorem precondition_violations:
  fixes lines :: "'a Object3D_scheme list list"
    and object :: "'b Object3D_scheme" and spheres :: "'c Object3D_scheme list"
  shows "(frame settings = BodyRelative i \<and> (i < 0 \<or> length points \<le> nat i) \<longrightarrow>
            updateLightObject idx points barycenter object settings = Threw TypeError object
          \<and> updateSpheresObject points barycenter spheres settings = Threw TypeError spheres
          \<and> updateLinesObject Q points barycenter lines settings = Threw TypeError lines)
       \<and> (frameTrajectory (frame settings) points barycenter = Inr basis
          \<and> length (barycenter # points) \<le> length lines
          \<and> (\<forall>e < length (barycenter # points).
                length (lines ! e) \<le> length (trajectory ((barycenter # points) ! e))
                \<and> (\<forall>b. basis = Some b \<longrightarrow> length (lines ! e) \<le> length b)) \<longrightarrow>
            (\<exists>lns. updateLinesObject Q points barycenter lines settings = Done lns
               \<and> (\<forall>e < length (barycenter # points). \<forall>k < length (lines ! e).
                    Object3D.position (lns ! e ! k)
                      = (if k = 0 then Vector3 0 0 0 else Object3D.position (lns ! e ! (k - 1)))
                    \<longrightarrow> quaternion (lns ! e ! k) = Q (Vector3 0 1 0) (Vector3 0 0 0))))
       \<and> (si < 0 \<longrightarrow> makeUnit c si = \<lparr>val = NaN, unit = None\<rparr>)
       \<and> makeUnit c 0 = \<lparr>val = Num 0, unit = Some (UnitPrefix_Nano c)\<rparr>"
proof (intro conjI impI)
  assume a: "frame settings = BodyRelative i \<and> (i < 0 \<or> length points \<le> nat i)"
  then have p: "framePosition (frame settings) points barycenter = Inl TypeError"
    and t: "frameTrajectory (frame settings) points barycenter = Inl TypeError"
    using framePosition_invalid [of i points barycenter]
      frameTrajectory_invalid [of i points barycenter] by auto
  show "updateLightObject idx points barycenter object settings = Threw TypeError object"
    by (simp add: updateLightObject_def p)
  show "updateSpheresObject points barycenter spheres settings = Threw TypeError spheres"
    by (simp add: updateSpheresObject_def p)
  show "updateLinesObject Q points barycenter lines settings = Threw TypeError lines"
    by (simp add: updateLinesObject_def t)
next
  assume a: "frameTrajectory (frame settings) points barycenter = Inr basis
          \<and> length (barycenter # points) \<le> length lines
          \<and> (\<forall>e < length (barycenter # points).
                length (lines ! e) \<le> length (trajectory ((barycenter # points) ! e))
                \<and> (\<forall>b. basis = Some b \<longrightarrow> length (lines ! e) \<le> length b))"
  then have a1: "frameTrajectory (frame settings) points barycenter = Inr basis"
    and a2: "length (barycenter # points) \<le> length lines"
    and a3: "\<forall>e < length (barycenter # points).
                length (lines ! e) \<le> length (trajectory ((barycenter # points) ! e))
                \<and> (\<forall>b. basis = Some b \<longrightarrow> length (lines ! e) \<le> length b)"
    by blast+
  from updateLinesObject_markers [OF a1 a2 a3, of Q]
  obtain lns where l: "updateLinesObject Q points barycenter lines settings = Done lns"
    "\<forall>e < length (barycenter # points). \<forall>k < length (lines ! e).
        quaternion (lns ! e ! k) =
          Q (Vector3 0 1 0)
            (normalize (negate (sub (Object3D.position (lns ! e ! k))
               (if k = 0 then zero else Object3D.position (lns ! e ! (k - 1))))))"
    by blast
  have "\<forall>e < length (barycenter # points). \<forall>k < length (lines ! e).
                    Object3D.position (lns ! e ! k)
                      = (if k = 0 then Vector3 0 0 0 else Object3D.position (lns ! e ! (k - 1)))
                    \<longrightarrow> quaternion (lns ! e ! k) = Q (Vector3 0 1 0) (Vector3 0 0 0)"
  proof (intro allI impI)
    fix e k
    assume "e < length (barycenter # points)" "k < length (lines ! e)"
      and c: "Object3D.position (lns ! e ! k)
                = (if k = 0 then Vector3 0 0 0 else Object3D.position (lns ! e ! (k - 1)))"
    with l(2) have "quaternion (lns ! e ! k) =
          Q (Vector3 0 1 0)
            (normalize (negate (sub (Object3D.position (lns ! e ! k))
               (if k = 0 then zero else Object3D.position (lns ! e ! (k - 1))))))"
      by blast
    also have "(if k = 0 then zero else Object3D.position (lns ! e ! (k - 1)))
        = Object3D.position (lns ! e ! k)"
      using c by (simp add: zero_def)
    finally show "quaternion (lns ! e ! k) = Q (Vector3 0 1 0) (Vector3 0 0 0)"
      by (simp only: normalize_zero)
  qed
  with l(1) show "\<exists>lns. updateLinesObject Q points barycenter lines settings = Done lns
               \<and> (\<forall>e < length (barycenter # points). \<forall>k < length (lines ! e).
                    Object3D.position (lns ! e ! k)
                      = (if k = 0 then Vector3 0 0 0 else Object3D.position (lns ! e ! (k - 1)))
                    \<longrightarrow> quaternion (lns ! e ! k) = Q (Vector3 0 1 0) (Vector3 0 0 0))"
    by blast
next
  assume "si < 0"
  then show "makeUnit c si = \<lparr>val = NaN, unit = None\<rparr>"
    by (simp add: makeUnit_def)
next
  show "makeUnit c 0 = \<lparr>val = Num 0, unit = Some (UnitPrefix_Nano c)\<rparr>"
    by (simp add: makeUnit_def)
qed

theorem precondition_violations_witness:
  "frame (example_settings\<lparr>frame := BodyRelative 7\<rparr>) = BodyRelative 7
   \<and> length example_points \<le> nat 7
   \<and> updateLightObject 0 example_points example_barycenter example_object
         (example_settings\<lparr>frame := BodyRelative 7\<rparr>) = Threw TypeError example_object
   \<and> updateSpheresObject example_points example_barycenter [example_object]
         (example_settings\<lparr>frame := BodyRelative 7\<rparr>) = Threw TypeError [example_object]
   \<and> updateLinesObject setFromUnitVectors example_points example_barycenter example_lines
         (example_settings\<lparr>frame := BodyRelative 7\<rparr>) = Threw TypeError example_lines
   \<and> (\<exists>lns. updateLinesObject setFromUnitVectors example_points example_barycenter
               example_lines example_settings = Done lns
         \<and> Object3D.position (lns ! 2 ! 0) = Vector3 0 0 0
         \<and> quaternion (lns ! 2 ! 0) = setFromUnitVectors (Vector3 0 1 0) (Vector3 0 0 0))
   \<and> (- 5 :: real) < 0
   \<and> makeUnit example_units (- 5) = \<lparr>val = NaN, unit = None\<rparr>"
proof -
  have f: "frame (example_settings\<lparr>frame := BodyRelative 7\<rparr>) = BodyRelative 7" by simp
  have n: "length example_points \<le> nat 7" by (simp add: example_points_def)
  note v = precondition_violations
    [where settings = "example_settings\<lparr>frame := BodyRelative 7\<rparr>" and i = 7
       and points = example_points and barycenter = example_barycenter and idx = 0
       and object = example_object and spheres = "[example_object]"
       and lines = example_lines and Q = setFromUnitVectors and si = "- 5"
       and c = example_units and basis = None]
  from v f n
  have a: "updateLightObject 0 example_points example_barycenter example_object
         (example_settings\<lparr>frame := BodyRelative 7\<rparr>) = Threw TypeError example_object
   \<and> updateSpheresObject example_points example_barycenter [example_object]
         (example_settings\<lparr>frame := BodyRelative 7\<rparr>) = Threw TypeError [example_object]
   \<and> updateLinesObject setFromUnitVectors example_points example_barycenter example_lines
         (example_settings\<lparr>frame := BodyRelative 7\<rparr>) = Threw TypeError example_lines"
    by blast
  from v have m: "makeUnit example_units (- 5) = \<lparr>val = NaN, unit = None\<rparr>"
    by simp
  note w = precondition_violations
    [where settings = example_settings
       and points = example_points and barycenter = example_barycenter
       and lines = example_lines and Q = setFromUnitVectors
       and basis = "Some [Vector3 4 0 2, Vector3 5 0 2]"]
  from w example_basis example_lengths(1) example_lengths_le
  obtain lns where l: "updateLinesObject setFromUnitVectors example_points example_barycenter
               example_lines example_settings = Done lns"
    and z: "\<forall>e < length (example_barycenter # example_points). \<forall>k < length (example_lines ! e).
                    Object3D.position (lns ! e ! k)
                      = (if k = 0 then Vector3 0 0 0 else Object3D.position (lns ! e ! (k - 1)))
                    \<longrightarrow> quaternion (lns ! e ! k)
                          = setFromUnitVectors (Vector3 0 1 0) (Vector3 0 0 0)"
    by blast
  from updateLinesObject_markers
    [OF example_basis example_lengths(1) example_lengths_le, of setFromUnitVectors] l
  have p: "\<forall>e < length (example_barycenter # example_points). \<forall>k < length (example_lines ! e).
      Object3D.position (lns ! e ! k) =
        multiplyScalar
          (sub (trajectory ((example_barycenter # example_points) ! e) ! k)
               ([Vector3 4 0 2, Vector3 5 0 2] ! k))
          (scale example_settings)"
    by auto
  have p0: "Object3D.position (lns ! 2 ! 0) = Vector3 0 0 0"
    using p [rule_format, of 2 0]
    by (simp add: example_lines_def example_points_def example_settings_def)
  have "quaternion (lns ! 2 ! 0) = setFromUnitVectors (Vector3 0 1 0) (Vector3 0 0 0)"
    using z [rule_format, of 2 0] p0
    by (simp add: example_lines_def example_points_def del: setFromUnitVectors.simps)
  with l p0 a m f n show ?thesis by simp
qed

text \<open>
  A system of one body, drawn in the frame of that body: every direction of the
  ribbons has length zero, the updater completes and the markers, which were at
  \<open>(9, 9, 9)\<close>, are moved to the origin with the identity orientation.  A negative
  magnitude is formatted as \<^verbatim>\<open>NaN\<close> with an undefined unit.
\<close>

theorem zero_length_direction_counterexample:
  "updateLinesObject setFromUnitVectors [single_body] single_body
     [[example_object], [example_object]] single_body_settings
     = Done [[\<lparr>position = Vector3 0 0 0, quaternion = Quaternion 0 0 0 1\<rparr>],
             [\<lparr>position = Vector3 0 0 0, quaternion = Quaternion 0 0 0 1\<rparr>]]
   \<and> Object3D.position example_object = Vector3 9 9 9
   \<and> vlength (negate (sub (Vector3 0 0 0) zero)) = 0
   \<and> makeUnit example_units (- 5) = \<lparr>val = NaN, unit = None\<rparr>
   \<and> makeUnit example_units 0 = \<lparr>val = Num 0, unit = Some ''n''\<rparr>"
  by (simp add: updateLinesObject_def updateVertex_def single_body_def single_body_settings_def
      example_object_def index_def get_def zero_def makeUnit_def example_units_def Let_def)

end
